theory Spec2Isabelle
  imports Complex_Main
begin

section \<open>The search syntax parser: data model\<close>

text \<open>
  This theory embeds \<^verbatim>\<open>static/app/components/searchSyntax/parser.tsx\<close> and the
  operator helper \<^verbatim>\<open>getValidOps\<close> of the search bar utilities. Enumerations are
  datatypes, token objects are datatypes with the source's field names as selectors,
  lookups into object literals are functions into \<open>option\<close>, and every \<^verbatim>\<open>null\<close> or
  \<^verbatim>\<open>undefined\<close> is \<open>None\<close>.
\<close>

subsection \<open>Enumerations\<close>

datatype Token =
    Token_Spaces | Token_Filter | Token_FreeText | Token_LogicGroup | Token_LogicBoolean
  | Token_KeySimple | Token_KeyExplicitTag | Token_KeyAggregate | Token_KeyAggregateArgs
  | Token_KeyAggregateParam | Token_ValueIso8601Date | Token_ValueRelativeDate
  | Token_ValueDuration | Token_ValuePercentage | Token_ValueBoolean | Token_ValueNumber
  | Token_ValueText | Token_ValueNumberList | Token_ValueTextList

datatype TermOperator =
    Default | GreaterThanEqual | LessThanEqual | GreaterThan | LessThan | Equal | NotEqual

datatype BooleanOperator = And | Or

datatype FilterType =
    Text | TextIn | Date | SpecificDate | RelativeDate | Duration | Numeric | NumericIn
  | Boolean | AggregateDuration | AggregatePercentage | AggregateNumeric | AggregateDate
  | AggregateRelativeDate | Has | Is

definition allOperators :: "TermOperator list" where
  "allOperators =
     [Default, GreaterThanEqual, LessThanEqual, GreaterThan, LessThan, Equal, NotEqual]"

definition basicOperators :: "TermOperator list" where
  "basicOperators = [Default, NotEqual]"

text \<open>
  \<^verbatim>\<open>interchangeableFilterOperators\<close> is an object literal with two keys; a lookup of any
  other filter type is \<^verbatim>\<open>undefined\<close>.
\<close>

fun interchangeableFilterOperators :: "FilterType \<Rightarrow> FilterType list option" where
  "interchangeableFilterOperators SpecificDate = Some [Date]"
| "interchangeableFilterOperators Date = Some [SpecificDate]"
| "interchangeableFilterOperators _ = None"

definition textKeys :: "Token list" where
  "textKeys = [Token_KeySimple, Token_KeyExplicitTag]"

subsection \<open>The filter type configuration\<close>

record FilterConfig =
  validKeys :: "Token list"
  validOps :: "TermOperator list"
  validValues :: "Token list"
  canNegate :: bool

fun filterTypeConfig :: "FilterType \<Rightarrow> FilterConfig" where
  "filterTypeConfig Text =
     \<lparr>validKeys = textKeys, validOps = basicOperators,
      validValues = [Token_ValueText], canNegate = True\<rparr>"
| "filterTypeConfig TextIn =
     \<lparr>validKeys = textKeys, validOps = [],
      validValues = [Token_ValueTextList], canNegate = True\<rparr>"
| "filterTypeConfig Date =
     \<lparr>validKeys = [Token_KeySimple], validOps = allOperators,
      validValues = [Token_ValueIso8601Date], canNegate = False\<rparr>"
| "filterTypeConfig SpecificDate =
     \<lparr>validKeys = [Token_KeySimple], validOps = [],
      validValues = [Token_ValueIso8601Date], canNegate = False\<rparr>"
| "filterTypeConfig RelativeDate =
     \<lparr>validKeys = [Token_KeySimple], validOps = [],
      validValues = [Token_ValueRelativeDate], canNegate = False\<rparr>"
| "filterTypeConfig Duration =
     \<lparr>validKeys = [Token_KeySimple], validOps = allOperators,
      validValues = [Token_ValueDuration], canNegate = True\<rparr>"
| "filterTypeConfig Numeric =
     \<lparr>validKeys = [Token_KeySimple], validOps = allOperators,
      validValues = [Token_ValueNumber], canNegate = True\<rparr>"
| "filterTypeConfig NumericIn =
     \<lparr>validKeys = [Token_KeySimple], validOps = [],
      validValues = [Token_ValueNumberList], canNegate = True\<rparr>"
| "filterTypeConfig Boolean =
     \<lparr>validKeys = [Token_KeySimple], validOps = basicOperators,
      validValues = [Token_ValueBoolean], canNegate = True\<rparr>"
| "filterTypeConfig AggregateDuration =
     \<lparr>validKeys = [Token_KeyAggregate], validOps = allOperators,
      validValues = [Token_ValueDuration], canNegate = True\<rparr>"
| "filterTypeConfig AggregateNumeric =
     \<lparr>validKeys = [Token_KeyAggregate], validOps = allOperators,
      validValues = [Token_ValueNumber], canNegate = True\<rparr>"
| "filterTypeConfig AggregatePercentage =
     \<lparr>validKeys = [Token_KeyAggregate], validOps = allOperators,
      validValues = [Token_ValuePercentage], canNegate = True\<rparr>"
| "filterTypeConfig AggregateDate =
     \<lparr>validKeys = [Token_KeyAggregate], validOps = allOperators,
      validValues = [Token_ValueIso8601Date], canNegate = True\<rparr>"
| "filterTypeConfig AggregateRelativeDate =
     \<lparr>validKeys = [Token_KeyAggregate], validOps = allOperators,
      validValues = [Token_ValueRelativeDate], canNegate = True\<rparr>"
| "filterTypeConfig Has =
     \<lparr>validKeys = [Token_KeySimple], validOps = basicOperators,
      validValues = [], canNegate = True\<rparr>"
| "filterTypeConfig Is =
     \<lparr>validKeys = [Token_KeySimple], validOps = basicOperators,
      validValues = [Token_ValueText], canNegate = True\<rparr>"

text \<open>
  \<^verbatim>\<open>InvalidFilter\<close>: the reason, and the optional list of filter types the key would
  have expected.
\<close>

record InvalidFilter =
  reason :: string
  expectedType :: "FilterType list option"

subsection \<open>Tokens\<close>

text \<open>
  Every token object spreads \<^verbatim>\<open>defaultTokenFields\<close> (the text and the location of the
  grammar match) and adds its own fields. \<open>TokenResult\<close> keeps the two shared fields and
  holds the token's own fields in \<open>payload\<close>; the \<^verbatim>\<open>type\<close> tag of the source is the
  constructor of the field datatype. The fields \<^verbatim>\<open>text\<close> and \<^verbatim>\<open>value\<close> are spelt
  \<open>text'\<close> and \<open>value'\<close>, the field \<^verbatim>\<open>end\<close> of a location range is \<open>finish\<close>,
  and the field \<^verbatim>\<open>filter\<close> of a filter token is \<open>filter'\<close>. Where the fields
  \<^verbatim>\<open>value\<close> and \<^verbatim>\<open>unit\<close> of two token types differ in type, the selector carries
  the initial of the token: \<open>nvalue\<close>, \<open>dvalue\<close>, \<open>rvalue\<close>, \<open>dunit\<close>, \<open>runit\<close>.
\<close>

record Position =
  offset :: nat
  line :: nat
  column :: nat

record LocationRange =
  start :: Position
  finish :: Position

datatype 'a TokenResult =
  TokenResult (text': string) (location: LocationRange) (payload: 'a)

text \<open>
  \<^verbatim>\<open>tokenKeySimple\<close>, \<^verbatim>\<open>tokenKeyAggregateParam\<close>, \<^verbatim>\<open>tokenValueText\<close> and
  \<^verbatim>\<open>tokenFreeText\<close> each add the two fields \<^verbatim>\<open>value\<close> and \<^verbatim>\<open>quoted\<close>.
\<close>

datatype TextFields = TextFields (value': string) (quoted: bool)

type_synonym Spaces = "string TokenResult"
type_synonym KeySimple = "TextFields TokenResult"
type_synonym KeyAggregateParam = "TextFields TokenResult"
type_synonym ValueText = "TextFields TokenResult"

text \<open>
  A \<^verbatim>\<open>ListItem\<close> is the tuple the grammar hands over for one further list element:
  spaces, the comma, spaces, and the element, which is \<^verbatim>\<open>null\<close> when nothing stands
  between two commas. \<^verbatim>\<open>listJoiner\<close> turns it into \<^verbatim>\<open>{separator, value}\<close>.
\<close>

datatype 'v ListItem = ListItem Spaces string Spaces "'v option"

datatype 'v Joined = Joined (separator: string) (item: "'v option")

fun listJoiner :: "'v ListItem \<Rightarrow> 'v Joined" where
  "listJoiner (ListItem s1 comma s2 v) = Joined (payload s1 @ comma @ payload s2) v"

type_synonym KeyAggregateArgs = "KeyAggregateParam Joined list TokenResult"

datatype ExplicitTagFields = ExplicitTagFields (prefix: string) (key: KeySimple)

datatype AggregateFields =
  AggregateFields (name: KeySimple) (args: "KeyAggregateArgs option")
    (argsSpaceBefore: Spaces) (argsSpaceAfter: Spaces)

datatype Key =
    KeySimple KeySimple
  | KeyExplicitTag "ExplicitTagFields TokenResult"
  | KeyAggregate "AggregateFields TokenResult"

text \<open>
  A JavaScript number is an IEEE 754 double: \<^verbatim>\<open>NaN\<close>, an infinity, a zero with its
  sign, or a finite value that is not zero. \<open>Finite 0\<close> is the positive zero, and the
  rational of a finite number is one that a double represents.
\<close>

datatype number = NaN | Infinity | MinusInfinity | MinusZero | Finite rat

datatype NumberFields = NumberFields (nvalue: string) (rawValue: number) (unit: string)

datatype DurationFields = DurationFields (dvalue: number) (dunit: string)

datatype RelativeDateFields = RelativeDateFields (rvalue: number) (sign: string) (runit: string)

text \<open>The result of \<^verbatim>\<open>moment(value)\<close> is kept as the string it was made from.\<close>

datatype Moment = Moment string

type_synonym ValueNumber = "NumberFields TokenResult"

datatype Value =
    ValueText ValueText
  | ValueNumber ValueNumber
  | ValueBoolean "bool TokenResult"
  | ValueDuration "DurationFields TokenResult"
  | ValuePercentage "number TokenResult"
  | ValueIso8601Date "Moment TokenResult"
  | ValueRelativeDate "RelativeDateFields TokenResult"
  | ValueNumberList "ValueNumber Joined list TokenResult"
  | ValueTextList "ValueText Joined list TokenResult"

fun value_text :: "Value \<Rightarrow> string" where
  "value_text (ValueText v) = text' v"
| "value_text (ValueNumber v) = text' v"
| "value_text (ValueBoolean v) = text' v"
| "value_text (ValueDuration v) = text' v"
| "value_text (ValuePercentage v) = text' v"
| "value_text (ValueIso8601Date v) = text' v"
| "value_text (ValueRelativeDate v) = text' v"
| "value_text (ValueNumberList v) = text' v"
| "value_text (ValueTextList v) = text' v"

datatype FilterFields =
  FilterFields (filter': FilterType) (fkey: Key) (fvalue: Value) (negated: bool)
    (operator: TermOperator) (invalid: "InvalidFilter option")

text \<open>The terms of a parse result; a logic group holds terms again.\<close>

datatype Term =
    Spaces Spaces
  | Filter "FilterFields TokenResult"
  | FreeText "TextFields TokenResult"
  | LogicGroup "Term list TokenResult"
  | LogicBoolean "BooleanOperator TokenResult"

type_synonym ParseResult = "Term list"

fun term_text :: "Term \<Rightarrow> string" where
  "term_text (Spaces x) = text' x"
| "term_text (Filter x) = text' x"
| "term_text (FreeText x) = text' x"
| "term_text (LogicGroup x) = text' x"
| "term_text (LogicBoolean x) = text' x"

fun term_location :: "Term \<Rightarrow> LocationRange" where
  "term_location (Spaces x) = location x"
| "term_location (Filter x) = location x"
| "term_location (FreeText x) = location x"
| "term_location (LogicGroup x) = location x"
| "term_location (LogicBoolean x) = location x"

subsection \<open>The search configuration and the token converter\<close>

record SearchConfig =
  allowBoolean :: bool
  booleanKeys :: "string set"
  dateKeys :: "string set"
  durationKeys :: "string set"
  numericKeys :: "string set"
  percentageKeys :: "string set"
  textOperatorKeys :: "string set"

text \<open>
  A \<^verbatim>\<open>TokenConverter\<close> is made for one grammar match: \<^verbatim>\<open>text()\<close> and
  \<^verbatim>\<open>location()\<close> give the matched text and its range.
\<close>

record TokenConverter =
  tc_text :: string
  tc_location :: LocationRange
  config :: SearchConfig

subsection \<open>Strings and numbers of the host language\<close>

text \<open>\<^verbatim>\<open>String.prototype.toLowerCase\<close> on the ASCII letters.\<close>

definition lower_char :: "char \<Rightarrow> char" where
  "lower_char c =
     (case map_of (zip ''ABCDEFGHIJKLMNOPQRSTUVWXYZ'' ''abcdefghijklmnopqrstuvwxyz'') c of
        Some l \<Rightarrow> l
      | None \<Rightarrow> c)"

definition toLowerCase :: "string \<Rightarrow> string" where
  "toLowerCase s = map lower_char s"

definition isDigit :: "char \<Rightarrow> bool" where
  "isDigit c = (c \<in> set ''0123456789'')"

fun digits_value :: "nat \<Rightarrow> string \<Rightarrow> nat" where
  "digits_value acc [] = acc"
| "digits_value acc (c # cs) = digits_value (10 * acc + (of_char c - 48)) cs"

text \<open>
  Rounding to a double. \<open>floor_log2 q\<close> is the exponent \<open>k\<close> for which \<open>q\<close> lies
  between 2 to the \<open>k\<close> and 2 to the \<open>k + 1\<close>. A double has 53 significant bits and no
  exponent below -1074, so the doubles around \<open>q\<close> are the multiples of 2 to the \<open>e\<close>
  with \<open>e = max (k - 52) (- 1074)\<close>; \<open>round_magnitude\<close> takes the nearest of them, the
  even one of two that are equally near. A result of 2 to the 1024 or more is an
  infinity.
\<close>

function bit_length :: "int \<Rightarrow> int" where
  "bit_length n = (if n \<le> 0 then 0 else 1 + bit_length (n div 2))"
  by pat_completeness auto
termination
  by (relation "measure nat") auto

declare bit_length.simps [simp del]

definition floor_log2 :: "rat \<Rightarrow> int" where
  "floor_log2 q =
     (if 1 \<le> q then bit_length \<lfloor>q\<rfloor> - 1
      else (let k = 1 - bit_length \<lfloor>1 / q\<rfloor> in if 2 powi k \<le> q then k else k - 1))"

definition round_half_even :: "rat \<Rightarrow> int" where
  "round_half_even x =
     (let f = \<lfloor>x\<rfloor>; r = x - of_int f in
      if r < 1 / 2 then f
      else if 1 / 2 < r then f + 1
      else if even f then f else f + 1)"

definition round_magnitude :: "rat \<Rightarrow> rat" where
  "round_magnitude q =
     (let e = max (floor_log2 q - 52) (- 1074) in
      of_int (round_half_even (q / 2 powi e)) * 2 powi e)"

definition signed_zero :: "bool \<Rightarrow> number" where
  "signed_zero neg = (if neg then MinusZero else Finite 0)"

definition signed_infinity :: "bool \<Rightarrow> number" where
  "signed_infinity neg = (if neg then MinusInfinity else Infinity)"

text \<open>The double nearest to the magnitude \<open>q\<close>, with the sign \<open>neg\<close>.\<close>

definition nearest_double :: "bool \<Rightarrow> rat \<Rightarrow> number" where
  "nearest_double neg q =
     (if q = 0 then signed_zero neg
      else
        (let r = round_magnitude q in
         if 2 powi 1024 \<le> r then signed_infinity neg
         else if r = 0 then signed_zero neg
         else Finite (if neg then - r else r)))"

fun negative :: "number \<Rightarrow> bool" where
  "negative MinusInfinity = True"
| "negative MinusZero = True"
| "negative (Finite x) = (x < 0)"
| "negative _ = False"

fun magnitude :: "number \<Rightarrow> rat option" where
  "magnitude (Finite x) = Some \<bar>x\<bar>"
| "magnitude MinusZero = Some 0"
| "magnitude _ = None"

text \<open>
  The operator \<^verbatim>\<open>*\<close> on numbers: \<^verbatim>\<open>NaN\<close> when an operand is \<^verbatim>\<open>NaN\<close> or when
  an infinity meets a zero; otherwise the sign is negative when the signs of the
  operands differ, an infinite operand gives an infinity, and the exact product of two
  finite operands is rounded to the nearest double.
\<close>

definition multiply :: "number \<Rightarrow> number \<Rightarrow> number" where
  "multiply a b =
     (if a = NaN \<or> b = NaN then NaN
      else
        (let neg = (negative a \<noteq> negative b) in
         case (magnitude a, magnitude b) of
           (Some x, Some y) \<Rightarrow> nearest_double neg (x * y)
         | (None, Some y) \<Rightarrow> if y = 0 then NaN else signed_infinity neg
         | (Some x, None) \<Rightarrow> if x = 0 then NaN else signed_infinity neg
         | (None, None) \<Rightarrow> signed_infinity neg))"

text \<open>
  \<^verbatim>\<open>Number(s)\<close> on the strings the number rule of the grammar hands over: an optional
  sign, digits, and an optional fraction. \<open>decimal_literal\<close> reads the sign and the
  exact decimal magnitude of such a string, and \<^verbatim>\<open>Number\<close> is the double nearest to
  it. The empty string is 0, as in JavaScript; any other string is \<^verbatim>\<open>NaN\<close> here
  (JavaScript also reads exponents, hexadecimal literals, \<^verbatim>\<open>Infinity\<close> and surrounding
  white space, which the grammar never passes).
\<close>

definition unsigned_decimal :: "string \<Rightarrow> rat option" where
  "unsigned_decimal s =
     (let ip = takeWhile isDigit s; r = dropWhile isDigit s in
      if r = [] then (if ip = [] then None else Some (of_nat (digits_value 0 ip)))
      else if hd r = CHR ''.'' \<and> list_all isDigit (tl r) \<and> (ip \<noteq> [] \<or> tl r \<noteq> [])
      then Some (of_nat (digits_value 0 ip)
                 + of_nat (digits_value 0 (tl r)) / 10 ^ length (tl r))
      else None)"

definition decimal_literal :: "string \<Rightarrow> (bool \<times> rat) option" where
  "decimal_literal s =
     (case s of
        [] \<Rightarrow> Some (False, 0)
      | c # cs \<Rightarrow>
          if c = CHR ''-'' then map_option (Pair True) (unsigned_decimal cs)
          else if c = CHR ''+'' then map_option (Pair False) (unsigned_decimal cs)
          else map_option (Pair False) (unsigned_decimal s))"

definition Number :: "string \<Rightarrow> number" where
  "Number s =
     (case decimal_literal s of
        None \<Rightarrow> NaN
      | Some (neg, q) \<Rightarrow> nearest_double neg q)"

text \<open>
  \<^verbatim>\<open>numberUnits\<close> is an object literal with the keys b, m and k; a lookup of another
  unit is \<^verbatim>\<open>undefined\<close>.
\<close>

definition numberUnits :: "string \<Rightarrow> number option" where
  "numberUnits u =
     (if u = ''b'' then Some (Finite 1000000000)
      else if u = ''m'' then Some (Finite 1000000)
      else if u = ''k'' then Some (Finite 1000)
      else None)"

section \<open>Token constructors\<close>

definition tokenSpaces :: "TokenConverter \<Rightarrow> string \<Rightarrow> Spaces" where
  "tokenSpaces tc v = TokenResult (tc_text tc) (tc_location tc) v"

definition tokenFreeText :: "TokenConverter \<Rightarrow> string \<Rightarrow> bool \<Rightarrow> TextFields TokenResult" where
  "tokenFreeText tc v q = TokenResult (tc_text tc) (tc_location tc) (TextFields v q)"

definition tokenLogicGroup :: "TokenConverter \<Rightarrow> Term list \<Rightarrow> Term list TokenResult" where
  "tokenLogicGroup tc inner = TokenResult (tc_text tc) (tc_location tc) inner"

definition tokenLogicBoolean ::
  "TokenConverter \<Rightarrow> BooleanOperator \<Rightarrow> BooleanOperator TokenResult" where
  "tokenLogicBoolean tc b = TokenResult (tc_text tc) (tc_location tc) b"

definition tokenKeySimple :: "TokenConverter \<Rightarrow> string \<Rightarrow> bool \<Rightarrow> KeySimple" where
  "tokenKeySimple tc v q = TokenResult (tc_text tc) (tc_location tc) (TextFields v q)"

definition tokenKeyExplicitTag ::
  "TokenConverter \<Rightarrow> string \<Rightarrow> KeySimple \<Rightarrow> ExplicitTagFields TokenResult" where
  "tokenKeyExplicitTag tc p k =
     TokenResult (tc_text tc) (tc_location tc) (ExplicitTagFields p k)"

definition tokenKeyAggregateParam :: "TokenConverter \<Rightarrow> string \<Rightarrow> bool \<Rightarrow> KeyAggregateParam" where
  "tokenKeyAggregateParam tc v q = TokenResult (tc_text tc) (tc_location tc) (TextFields v q)"

definition tokenKeyAggregate ::
  "TokenConverter \<Rightarrow> KeySimple \<Rightarrow> KeyAggregateArgs option \<Rightarrow> Spaces \<Rightarrow> Spaces
   \<Rightarrow> AggregateFields TokenResult" where
  "tokenKeyAggregate tc n a sb sa =
     TokenResult (tc_text tc) (tc_location tc) (AggregateFields n a sb sa)"

definition tokenKeyAggregateArgs ::
  "TokenConverter \<Rightarrow> KeyAggregateParam \<Rightarrow> KeyAggregateParam ListItem list \<Rightarrow> KeyAggregateArgs" where
  "tokenKeyAggregateArgs tc arg1 rest =
     TokenResult (tc_text tc) (tc_location tc) (Joined [] (Some arg1) # map listJoiner rest)"

definition tokenValueIso8601Date :: "TokenConverter \<Rightarrow> string \<Rightarrow> Moment TokenResult" where
  "tokenValueIso8601Date tc v = TokenResult (tc_text tc) (tc_location tc) (Moment v)"

definition tokenValueRelativeDate ::
  "TokenConverter \<Rightarrow> string \<Rightarrow> string \<Rightarrow> string \<Rightarrow> RelativeDateFields TokenResult" where
  "tokenValueRelativeDate tc v sg u =
     TokenResult (tc_text tc) (tc_location tc) (RelativeDateFields (Number v) sg u)"

definition tokenValueDuration ::
  "TokenConverter \<Rightarrow> string \<Rightarrow> string \<Rightarrow> DurationFields TokenResult" where
  "tokenValueDuration tc v u =
     TokenResult (tc_text tc) (tc_location tc) (DurationFields (Number v) u)"

definition tokenValuePercentage :: "TokenConverter \<Rightarrow> string \<Rightarrow> number TokenResult" where
  "tokenValuePercentage tc v = TokenResult (tc_text tc) (tc_location tc) (Number v)"

definition tokenValueBoolean :: "TokenConverter \<Rightarrow> string \<Rightarrow> bool TokenResult" where
  "tokenValueBoolean tc v =
     TokenResult (tc_text tc) (tc_location tc) (toLowerCase v \<in> set [''1'', ''true''])"

definition tokenValueNumber :: "TokenConverter \<Rightarrow> string \<Rightarrow> string \<Rightarrow> ValueNumber" where
  "tokenValueNumber tc v u =
     TokenResult (tc_text tc) (tc_location tc)
       (NumberFields v
          (multiply (Number v) (case numberUnits u of Some m \<Rightarrow> m | None \<Rightarrow> Finite 1))
          u)"

definition tokenValueNumberList ::
  "TokenConverter \<Rightarrow> ValueNumber \<Rightarrow> ValueNumber ListItem list
   \<Rightarrow> ValueNumber Joined list TokenResult" where
  "tokenValueNumberList tc item1 items =
     TokenResult (tc_text tc) (tc_location tc) (Joined [] (Some item1) # map listJoiner items)"

definition tokenValueTextList ::
  "TokenConverter \<Rightarrow> ValueText \<Rightarrow> ValueText ListItem list
   \<Rightarrow> ValueText Joined list TokenResult" where
  "tokenValueTextList tc item1 items =
     TokenResult (tc_text tc) (tc_location tc) (Joined [] (Some item1) # map listJoiner items)"

definition tokenValueText :: "TokenConverter \<Rightarrow> string \<Rightarrow> bool \<Rightarrow> ValueText" where
  "tokenValueText tc v q = TokenResult (tc_text tc) (tc_location tc) (TextFields v q)"


section \<open>The field catalog\<close>

text \<open>
  The parser imports its catalog from \<^verbatim>\<open>sentry/utils/fields\<close> and
  \<^verbatim>\<open>sentry/utils/discover/fields\<close>, and \<^verbatim>\<open>getKeyName\<close> from the search syntax
  utilities. These modules are parameters of the model, gathered in \<open>Imports\<close>.
\<close>

text \<open>
  Modelled from the spec: the enumeration \<^verbatim>\<open>FieldKind\<close> of \<^verbatim>\<open>sentry/utils/fields\<close>;
  the kind of a field definition is one of field and function.
\<close>

datatype FieldKind = FIELD | FUNCTION

text \<open>
  Modelled from the spec: the members of \<^verbatim>\<open>FieldValueType\<close> that the parser names. The
  value types are strings at run time (string, number, integer, duration, date,
  percentage, boolean), and a \<^verbatim>\<open>ColumnType\<close> is such a string.
\<close>

type_synonym ColumnType = string

definition FieldValueType_NUMBER :: ColumnType where
  "FieldValueType_NUMBER = ''number''"

definition FieldValueType_STRING :: ColumnType where
  "FieldValueType_STRING = ''string''"

record FieldDefinition =
  kind :: FieldKind
  valueType :: "ColumnType option"

text \<open>
  An aggregate parameter is of kind column, dropdown or value. The column types of a
  column parameter are a validation function or a list of types; a dropdown parameter
  lists the values of its options; a value parameter names its data type.
\<close>

datatype ColumnTypes =
    ColumnTypesFunction "string \<times> ColumnType option \<Rightarrow> bool"
  | ColumnTypesArray "ColumnType list"

datatype ParameterKind =
    column ColumnTypes
  | dropdown "string list"
  | valueKind ColumnType

record AggregateParameter =
  paramKind :: ParameterKind
  required :: bool

record Aggregation =
  parameters :: "AggregateParameter list"

record Imports =
  getFieldDefinition :: "string \<Rightarrow> FieldDefinition option"
  AGGREGATIONS :: "string \<Rightarrow> Aggregation option"
  isMeasurement :: "string \<Rightarrow> bool"
  isSpanOperationBreakdownField :: "string \<Rightarrow> bool"
  measurementType :: "string \<Rightarrow> string"
  getKeyName :: "Key \<Rightarrow> string"
  isoNow :: string

text \<open>
  \<open>isoNow\<close> is what \<^verbatim>\<open>toISOString()\<close> gives for the current date once its seconds and
  milliseconds are set to 0.
\<close>

text \<open>
  Modelled from the spec: the function \<^verbatim>\<open>t\<close> of \<^verbatim>\<open>sentry/locale\<close>. The spec gives
  every reason as the message itself, so \<open>t\<close> returns its message, each \<^verbatim>\<open>%s\<close>
  replaced by the next argument.
\<close>

fun t :: "string \<Rightarrow> string list \<Rightarrow> string" where
  "t [] as = []"
| "t [c] as = [c]"
| "t (c # d # cs) as =
     (if c = CHR ''%'' \<and> d = CHR ''s'' \<and> as \<noteq> [] then hd as @ t cs (tl as)
      else c # t (d # cs) as)"

text \<open>A number in a template literal: its decimal digits.\<close>

fun show_nat :: "nat \<Rightarrow> string" where
  "show_nat n =
     (if n < 10 then [''0123456789'' ! n]
      else show_nat (n div 10) @ [''0123456789'' ! (n mod 10)])"

declare show_nat.simps [simp del]

text \<open>\<^verbatim>\<open>Array.prototype.join\<close>.\<close>

fun join :: "string \<Rightarrow> string list \<Rightarrow> string" where
  "join sep [] = []"
| "join sep [x] = x"
| "join sep (x # y # ys) = x @ sep @ join sep (y # ys)"

text \<open>An index into an array; out of range it is \<^verbatim>\<open>undefined\<close>.\<close>

definition elementAt :: "'a list \<Rightarrow> nat \<Rightarrow> 'a option" where
  "elementAt xs i = (if i < length xs then Some (xs ! i) else None)"

section \<open>Key validation and the grammar predicates\<close>

definition isNumeric :: "Imports \<Rightarrow> TokenConverter \<Rightarrow> string \<Rightarrow> bool" where
  "isNumeric im tc k =
     (k \<in> numericKeys (config tc) \<or> isMeasurement im k \<or> isSpanOperationBreakdownField im k)"

definition isBoolean :: "TokenConverter \<Rightarrow> string \<Rightarrow> bool" where
  "isBoolean tc k = (k \<in> booleanKeys (config tc))"

definition isPercentage :: "TokenConverter \<Rightarrow> string \<Rightarrow> bool" where
  "isPercentage tc k = (k \<in> percentageKeys (config tc))"

definition isDate :: "TokenConverter \<Rightarrow> string \<Rightarrow> bool" where
  "isDate tc k = (k \<in> dateKeys (config tc))"

definition isDuration :: "Imports \<Rightarrow> TokenConverter \<Rightarrow> string \<Rightarrow> bool" where
  "isDuration im tc k =
     (k \<in> durationKeys (config tc) \<or> isSpanOperationBreakdownField im k
      \<or> measurementType im k = ''duration'')"

text \<open>
  \<^verbatim>\<open>getFieldDefinition(keyName)?.kind === FieldKind.FUNCTION\<close>.
\<close>

definition keyIsAggregate :: "Imports \<Rightarrow> string \<Rightarrow> bool" where
  "keyIsAggregate im keyName =
     (case getFieldDefinition im keyName of
        None \<Rightarrow> False
      | Some d \<Rightarrow> kind d = FUNCTION)"

text \<open>
  \<^verbatim>\<open>key.args?.args\<close>: the argument list of an aggregate key that has one. A key
  without the field \<^verbatim>\<open>args\<close>, and an aggregate key whose \<^verbatim>\<open>args\<close> is \<^verbatim>\<open>null\<close>,
  give \<^verbatim>\<open>undefined\<close>.
\<close>

fun key_args :: "Key \<Rightarrow> KeyAggregateParam Joined list option" where
  "key_args (KeyAggregate k) = map_option payload (args (payload k))"
| "key_args _ = None"

text \<open>\<^verbatim>\<open>arg?.value?.value ?? ''\<close>.\<close>

definition arg_value :: "KeyAggregateParam Joined \<Rightarrow> string" where
  "arg_value arg = (case item arg of None \<Rightarrow> [] | Some p \<Rightarrow> value' (payload p))"

definition checkAggregate :: "Key \<Rightarrow> string \<Rightarrow> (string \<Rightarrow> bool) \<Rightarrow> bool" where
  "checkAggregate k keyName check =
     (check keyName \<and>
      (case key_args k of
         None \<Rightarrow> True
       | Some as \<Rightarrow> list_ex (\<lambda>arg. check (arg_value arg)) as))"

definition predicateFilter :: "Imports \<Rightarrow> TokenConverter \<Rightarrow> FilterType \<Rightarrow> Key \<Rightarrow> bool" where
  "predicateFilter im tc type k =
     (let keyName = getKeyName im k in
      if keyIsAggregate im keyName then
        (case type of
           AggregateDuration \<Rightarrow> checkAggregate k keyName (isDuration im tc)
         | AggregateNumeric \<Rightarrow> True
         | AggregateDate \<Rightarrow> True
         | AggregatePercentage \<Rightarrow> True
         | AggregateRelativeDate \<Rightarrow> True
         | Text \<Rightarrow> True
         | _ \<Rightarrow> False)
      else
        (case type of
           Numeric \<Rightarrow> isNumeric im tc keyName
         | NumericIn \<Rightarrow> isNumeric im tc keyName
         | Duration \<Rightarrow> isDuration im tc keyName
         | Boolean \<Rightarrow> isBoolean tc keyName
         | Date \<Rightarrow> isDate tc keyName
         | RelativeDate \<Rightarrow> isDate tc keyName
         | SpecificDate \<Rightarrow> isDate tc keyName
         | _ \<Rightarrow> True))"

definition predicateTextOperator :: "Imports \<Rightarrow> TokenConverter \<Rightarrow> Key \<Rightarrow> bool" where
  "predicateTextOperator im tc k = (getKeyName im k \<in> textOperatorKeys (config tc))"


section \<open>The validator\<close>

text \<open>
  The regular expression \<^verbatim>\<open>/(^|[^\\])"/\<close>: a double quote at the start of the string,
  or a double quote after a character that is not a backslash.
\<close>

fun quote_after_other :: "string \<Rightarrow> bool" where
  "quote_after_other (a # b # cs) =
     ((a \<noteq> CHR 0x5C \<and> b = CHR 0x22) \<or> quote_after_other (b # cs))"
| "quote_after_other _ = False"

definition unescaped_quote :: "string \<Rightarrow> bool" where
  "unescaped_quote s = ((s \<noteq> [] \<and> hd s = CHR 0x22) \<or> quote_after_other s)"

definition checkInvalidTextValue :: "ValueText \<Rightarrow> InvalidFilter option" where
  "checkInvalidTextValue v =
     (if \<not> quoted (payload v) \<and> unescaped_quote (value' (payload v))
      then Some \<lparr>reason = t ''Quotes must enclose text or be escaped'' [],
                 expectedType = None\<rparr>
      else if \<not> quoted (payload v) \<and> value' (payload v) = []
      then Some \<lparr>reason = t ''Filter must have a value'' [], expectedType = None\<rparr>
      else None)"

definition checkInvalidInFilter :: "'v Joined list TokenResult \<Rightarrow> InvalidFilter option" where
  "checkInvalidInFilter v =
     (let hasEmptyValue = list_ex (\<lambda>i. item i = None) (payload v) in
      if hasEmptyValue
      then Some \<lparr>reason = t ''Lists should not have empty values'' [], expectedType = None\<rparr>
      else None)"

definition checkInvalidTextFilter ::
  "Imports \<Rightarrow> TokenConverter \<Rightarrow> Key \<Rightarrow> ValueText \<Rightarrow> InvalidFilter option" where
  "checkInvalidTextFilter im tc k v =
     (case k of
        KeyExplicitTag _ \<Rightarrow> checkInvalidTextValue v
      | _ \<Rightarrow>
          (let keyName = getKeyName im k in
           if \<not> keyIsAggregate im keyName then
             (if isDuration im tc keyName
              then Some \<lparr>reason =
                           t ''Invalid duration. Expected number followed by duration unit suffix'' [],
                         expectedType = Some [Duration]\<rparr>
              else if isDate tc keyName
              then (let example = isoNow im in
                    Some \<lparr>reason =
                            t ''Invalid date format. Expected +/-duration (e.g. +1h) or ISO 8601-like (e.g. %s or %s)''
                              [take 10 example, example],
                          expectedType = Some [Date, SpecificDate, RelativeDate]\<rparr>)
              else if isBoolean tc keyName
              then Some \<lparr>reason = t ''Invalid boolean. Expected true, 1, false, or 0.'' [],
                         expectedType = Some [Boolean]\<rparr>
              else if isNumeric im tc keyName
              then Some \<lparr>reason =
                           t ''Invalid number. Expected number then optional k, m, or b suffix (e.g. 500k)'' [],
                         expectedType = Some [Numeric, NumericIn]\<rparr>
              else checkInvalidTextValue v)
           else checkInvalidTextValue v))"

text \<open>
  The template literal prints a missing definition or value type as \<^verbatim>\<open>undefined\<close>.
\<close>

definition checkInvalidAggregateFilterValue ::
  "Imports \<Rightarrow> TokenConverter \<Rightarrow> FilterType \<Rightarrow> AggregateFields TokenResult \<Rightarrow> Value
   \<Rightarrow> InvalidFilter option" where
  "checkInvalidAggregateFilterValue im tc filterType k v =
     (let keyName = text' (name (payload k));
          definition = getFieldDefinition im keyName;
          wrongValueTypeReason =
            \<lparr>reason = [CHR 0x27] @ keyName @ [CHR 0x27] @ '' returns a ''
               @ (case definition of
                    None \<Rightarrow> ''undefined''
                  | Some d \<Rightarrow> (case valueType d of None \<Rightarrow> ''undefined'' | Some vt \<Rightarrow> vt))
               @ ''; '' @ [CHR 0x27] @ value_text v @ [CHR 0x27] @ '' is not valid here.'',
             expectedType = None\<rparr>
      in case filterType of
           AggregateRelativeDate \<Rightarrow> if \<not> isDate tc keyName then Some wrongValueTypeReason else None
         | AggregateDate \<Rightarrow> if \<not> isDate tc keyName then Some wrongValueTypeReason else None
         | AggregateDuration \<Rightarrow>
             if \<not> isDuration im tc keyName then Some wrongValueTypeReason else None
         | AggregatePercentage \<Rightarrow>
             if \<not> isPercentage tc keyName then Some wrongValueTypeReason else None
         | AggregateNumeric \<Rightarrow>
             if \<not> isNumeric im tc keyName then Some wrongValueTypeReason else None
         | _ \<Rightarrow> None)"

text \<open>
  \<^verbatim>\<open>parseFloat\<close> skips leading white space and reads the longest prefix that is a
  decimal literal; the result is \<^verbatim>\<open>NaN\<close> when there is none. After an optional sign,
  such a prefix exists exactly when the string goes on with a digit, with a dot and a
  digit, or with \<^verbatim>\<open>Infinity\<close>.

  A string of the model holds the UTF-8 bytes of the JavaScript string. \<open>whiteSpace\<close>
  lists the encodings of the white space and line terminator characters: tab, line
  feed, vertical tab, form feed, carriage return, space, U+00A0, U+1680, U+2000 to
  U+200A, U+2028, U+2029, U+202F, U+205F, U+3000 and U+FEFF.
\<close>

definition whiteSpace :: "string list" where
  "whiteSpace =
     [[CHR 0x09], [CHR 0x0A], [CHR 0x0B], [CHR 0x0C], [CHR 0x0D], [CHR 0x20],
      [CHR 0xC2, CHR 0xA0],
      [CHR 0xE1, CHR 0x9A, CHR 0x80],
      [CHR 0xE2, CHR 0x80, CHR 0x80], [CHR 0xE2, CHR 0x80, CHR 0x81],
      [CHR 0xE2, CHR 0x80, CHR 0x82], [CHR 0xE2, CHR 0x80, CHR 0x83],
      [CHR 0xE2, CHR 0x80, CHR 0x84], [CHR 0xE2, CHR 0x80, CHR 0x85],
      [CHR 0xE2, CHR 0x80, CHR 0x86], [CHR 0xE2, CHR 0x80, CHR 0x87],
      [CHR 0xE2, CHR 0x80, CHR 0x88], [CHR 0xE2, CHR 0x80, CHR 0x89],
      [CHR 0xE2, CHR 0x80, CHR 0x8A],
      [CHR 0xE2, CHR 0x80, CHR 0xA8], [CHR 0xE2, CHR 0x80, CHR 0xA9],
      [CHR 0xE2, CHR 0x80, CHR 0xAF],
      [CHR 0xE2, CHR 0x81, CHR 0x9F],
      [CHR 0xE3, CHR 0x80, CHR 0x80],
      [CHR 0xEF, CHR 0xBB, CHR 0xBF]]"

fun trimStart :: "string \<Rightarrow> string" where
  "trimStart [] = []"
| "trimStart (c # cs) =
     (if [c] \<in> set whiteSpace then trimStart cs
      else if c # take 1 cs \<in> set whiteSpace then trimStart (drop 1 cs)
      else if c # take 2 cs \<in> set whiteSpace then trimStart (drop 2 cs)
      else c # cs)"

definition parseFloat_isNaN :: "string \<Rightarrow> bool" where
  "parseFloat_isNaN s =
     (let s1 = trimStart s;
          s2 = (case s1 of
                  [] \<Rightarrow> []
                | c # cs \<Rightarrow> if c = CHR ''+'' \<or> c = CHR ''-'' then cs else s1)
      in \<not> (case s2 of
                [] \<Rightarrow> False
              | c # cs \<Rightarrow>
                  isDigit c
                  \<or> (c = CHR ''.'' \<and> (case cs of [] \<Rightarrow> False | d # _ \<Rightarrow> isDigit d))
                  \<or> take 8 s2 = ''Infinity''))"

definition getValueType :: "string \<Rightarrow> ColumnType" where
  "getValueType k =
     (if \<not> parseFloat_isNaN k then FieldValueType_NUMBER else FieldValueType_STRING)"

definition validateAggregateParameterColumn ::
  "Imports \<Rightarrow> string \<Rightarrow> ColumnTypes \<Rightarrow> nat \<Rightarrow> string \<Rightarrow> InvalidFilter option" where
  "validateAggregateParameterColumn im keyName columnTypes position parameterValue =
     (let definition = getFieldDefinition im keyName in
      case columnTypes of
        ColumnTypesFunction f \<Rightarrow>
          if \<not> f (parameterValue, (case definition of None \<Rightarrow> None | Some d \<Rightarrow> valueType d))
          then Some \<lparr>reason = ''Argument '' @ show_nat position @ '' is an invalid column type.'',
                     expectedType = None\<rparr>
          else None
      | ColumnTypesArray ts \<Rightarrow>
          (case getFieldDefinition im parameterValue of
             None \<Rightarrow>
               Some \<lparr>reason = keyName @ '' expects argument '' @ show_nat position
                              @ '' to be a column.'',
                     expectedType = None\<rparr>
           | Some columnParameterFieldDefinition \<Rightarrow>
               if \<not> list_ex (\<lambda>columnOrMetricType.
                               Some columnOrMetricType = valueType columnParameterFieldDefinition) ts
               then Some \<lparr>reason = keyName @ '' expects argument '' @ show_nat position
                                    @ '' to be a column of type: '' @ join '', '' ts @ ''.'',
                          expectedType = None\<rparr>
               else None))"

text \<open>
  \<^verbatim>\<open>!parameterValue\<close> holds of \<^verbatim>\<open>undefined\<close> and of the empty string; past the
  two early returns the parameter value is a string that is not empty.
\<close>

definition validateAggregateParameter ::
  "Imports \<Rightarrow> string \<Rightarrow> AggregateParameter option \<Rightarrow> string option \<Rightarrow> nat \<Rightarrow> nat
   \<Rightarrow> InvalidFilter option" where
  "validateAggregateParameter im keyName parameterDefinition parameterValue position
     numExpectedArguments =
     (let noValue = (parameterValue = None \<or> parameterValue = Some []);
          provided = (case parameterValue of None \<Rightarrow> [] | Some s \<Rightarrow> s)
      in
      case parameterDefinition of
        None \<Rightarrow>
          Some \<lparr>reason = keyName @ '' is expecting '' @ show_nat numExpectedArguments
                         @ '' arguments.'',
                expectedType = None\<rparr>
      | Some pd \<Rightarrow>
          if required pd \<and> noValue
          then Some \<lparr>reason = keyName @ '' is expecting '' @ show_nat numExpectedArguments
                               @ '' arguments.'',
                     expectedType = None\<rparr>
          else if noValue then None
          else
            (case paramKind pd of
               column columnTypes \<Rightarrow>
                 validateAggregateParameterColumn im keyName columnTypes position provided
             | dropdown options \<Rightarrow>
                 if find (\<lambda>option. option = provided) options = None
                 then Some \<lparr>reason = keyName @ '' expects argument '' @ show_nat position
                                      @ '' to be one of: ''
                                      @ join '', '' (map (\<lambda>option. [CHR 0x27] @ option @ [CHR 0x27])
                                                       options),
                            expectedType = None\<rparr>
                 else None
             | valueKind dataType \<Rightarrow>
                 if getValueType provided \<noteq> dataType
                 then Some \<lparr>reason = keyName @ '' expects arument '' @ show_nat position
                                      @ '' to be of type '' @ dataType,
                            expectedType = None\<rparr>
                 else None))"

text \<open>The loop over the argument positions: the first reason found is returned.\<close>

fun validateArguments :: "(nat \<Rightarrow> InvalidFilter option) \<Rightarrow> nat list \<Rightarrow> InvalidFilter option" where
  "validateArguments check [] = None"
| "validateArguments check (argIndex # rest) =
     (case check argIndex of
        Some r \<Rightarrow> Some r
      | None \<Rightarrow> validateArguments check rest)"

definition checkInvalidAggregateFilter ::
  "Imports \<Rightarrow> TokenConverter \<Rightarrow> FilterType \<Rightarrow> AggregateFields TokenResult \<Rightarrow> Value
   \<Rightarrow> InvalidFilter option" where
  "checkInvalidAggregateFilter im tc filterType k v =
     (let keyName = text' (name (payload k)) in
      case checkInvalidAggregateFilterValue im tc filterType k v of
        Some invalidValueReason \<Rightarrow> Some invalidValueReason
      | None \<Rightarrow>
          (case AGGREGATIONS im keyName of
             None \<Rightarrow> None
           | Some aggregation \<Rightarrow>
               (let numExpectedArguments = length (parameters aggregation);
                    provided = map_option payload (args (payload k));
                    numProvidedArguments = (case provided of None \<Rightarrow> 0 | Some as \<Rightarrow> length as)
                in validateArguments
                     (\<lambda>argIndex.
                        validateAggregateParameter im keyName
                          (elementAt (parameters aggregation) argIndex)
                          (case provided of
                             None \<Rightarrow> None
                           | Some as \<Rightarrow>
                               (case elementAt as argIndex of
                                  None \<Rightarrow> None
                                | Some arg \<Rightarrow> map_option (\<lambda>p. value' (payload p)) (item arg)))
                          (argIndex + 1) numExpectedArguments)
                     [0 ..< max numExpectedArguments numProvidedArguments])))"

text \<open>
  The signature of \<^verbatim>\<open>checkInvalidFilter\<close> ties the key and the value to the filter
  type, and the body casts them accordingly. A call whose value or key is not of the
  type the cast names is rejected by the compiler; the model answers it with
  \<open>IllTyped\<close>.
\<close>

datatype error = IllTyped

definition checkInvalidFilter ::
  "Imports \<Rightarrow> TokenConverter \<Rightarrow> FilterType \<Rightarrow> Key \<Rightarrow> Value \<Rightarrow> error + InvalidFilter option" where
  "checkInvalidFilter im tc flt k v =
     (if flt = Text then
        (case v of
           ValueText x \<Rightarrow> Inr (checkInvalidTextFilter im tc k x)
         | _ \<Rightarrow> Inl IllTyped)
      else if flt = Is \<or> flt = Has then
        (case v of
           ValueText x \<Rightarrow> Inr (checkInvalidTextValue x)
         | _ \<Rightarrow> Inl IllTyped)
      else if flt \<in> set [TextIn, NumericIn] then
        (case v of
           ValueTextList l \<Rightarrow> Inr (checkInvalidInFilter l)
         | ValueNumberList l \<Rightarrow> Inr (checkInvalidInFilter l)
         | _ \<Rightarrow> Inl IllTyped)
      else if flt \<in> set [AggregateDate, AggregateDuration, AggregateNumeric,
                          AggregatePercentage, AggregateRelativeDate] then
        (case k of
           KeyAggregate a \<Rightarrow> Inr (checkInvalidAggregateFilter im tc flt a v)
         | _ \<Rightarrow> Inl IllTyped)
      else Inr None)"

definition tokenFilter ::
  "Imports \<Rightarrow> TokenConverter \<Rightarrow> FilterType \<Rightarrow> Key \<Rightarrow> Value \<Rightarrow> TermOperator option \<Rightarrow> bool
   \<Rightarrow> error + FilterFields TokenResult" where
  "tokenFilter im tc flt k v op neg =
     (case checkInvalidFilter im tc flt k v of
        Inl e \<Rightarrow> Inl e
      | Inr verdict \<Rightarrow>
          Inr (TokenResult (tc_text tc) (tc_location tc)
                 (FilterFields flt k v neg (case op of None \<Rightarrow> Default | Some x \<Rightarrow> x) verdict)))"

section \<open>The public functions\<close>

text \<open>
  \<^verbatim>\<open>parseSearch\<close> calls the generated parser of the grammar inside \<^verbatim>\<open>try\<close>. The
  generated parser is a parameter: it returns a parse result (\<open>Inr\<close>) or throws
  (\<open>Inl\<close>). The result of \<^verbatim>\<open>parseSearch\<close> is written the same way, so that a throw
  of \<^verbatim>\<open>parseSearch\<close> itself would be an \<open>Inl\<close>.
\<close>

definition parseSearch ::
  "(string \<Rightarrow> 'e + ParseResult) \<Rightarrow> string \<Rightarrow> 'e + ParseResult option" where
  "parseSearch grammar_parse query =
     (case grammar_parse query of
        Inr r \<Rightarrow> Inr (Some r)
      | Inl e \<Rightarrow> Inr None)"

text \<open>
  The optional flags of \<^verbatim>\<open>joinQuery\<close> are booleans, \<open>False\<close> when left out; the
  parsed terms may be \<^verbatim>\<open>null\<close> or \<^verbatim>\<open>undefined\<close>.
\<close>

definition joinQuery :: "ParseResult option \<Rightarrow> bool \<Rightarrow> bool \<Rightarrow> string" where
  "joinQuery parsedTerms leadingSpace additionalSpaceBetween =
     (case parsedTerms of
        None \<Rightarrow> []
      | Some ts \<Rightarrow>
          if length ts = 0 then []
          else (if leadingSpace then '' '' else [])
               @ (if length ts = 1 then term_text (ts ! 0)
                  else join (if additionalSpaceBetween then '' '' else []) (map term_text ts)))"

text \<open>
  \<^verbatim>\<open>new Set(xs)\<close> spread into an array: the elements in the order of their first
  occurrence.
\<close>

fun set_add :: "'a list \<Rightarrow> 'a list \<Rightarrow> 'a list" where
  "set_add seen [] = seen"
| "set_add seen (x # xs) = set_add (if x \<in> set seen then seen else seen @ [x]) xs"

definition new_Set :: "'a list \<Rightarrow> 'a list" where
  "new_Set xs = set_add [] xs"

definition getValidOps :: "FilterFields TokenResult \<Rightarrow> TermOperator list" where
  "getValidOps filterToken =
     (let validTypes =
            (case invalid (payload filterToken) of
               None \<Rightarrow> [filter' (payload filterToken)]
             | Some i \<Rightarrow>
                 (case expectedType i of
                    None \<Rightarrow> [filter' (payload filterToken)]
                  | Some ts \<Rightarrow> ts));
          interchangeableTypes =
            map (\<lambda>type. case interchangeableFilterOperators type of None \<Rightarrow> [] | Some ts \<Rightarrow> ts)
              validTypes;
          allValidTypes = new_Set (validTypes @ concat interchangeableTypes);
          ops = new_Set (concat (map (\<lambda>type. validOps (filterTypeConfig type)) allValidTypes))
      in ops)"

section \<open>The grammar\<close>

text \<open>
  Modelled from the spec: the grammar \<^verbatim>\<open>grammar.pegjs\<close> and the parser generated from
  it are not among the sources. The spec gives the top-level production as a sequence of
  terms, \<^verbatim>\<open>term (space term)*\<close>, a term being a logic boolean, a logic group, a filter,
  free text, or spaces (one or more characters of white space); it has every node carry
  the exact source substring it spans as its text and the offsets of the span as its
  location; it has the constructors of the source build the nodes from the grammar
  matches; and it makes an input that the grammar does not recognize a failure.

  \<open>terms_from\<close> is this production. From the offset \<open>pos\<close> on it matches term after
  term, up to the end of the input. What a single term matches is left open: the matcher
  \<open>m\<close> is a parameter, which answers at an offset with the alternative that matched,
  the arguments for its token constructor, and the offset where the match ends. A match
  spans at least one character and ends within the input. The node is built by the token
  constructor of the source, from a token converter whose \<^verbatim>\<open>text()\<close> and
  \<^verbatim>\<open>location()\<close> are the matched substring and its range. \<open>grammar_parse\<close> is the
  \<^verbatim>\<open>parse\<close> function of the generated parser: it returns the terms, or throws when
  the input is not recognized in full.
\<close>

datatype TermMatch =
    MatchSpaces string
  | MatchFilter FilterType Key Value "TermOperator option" bool
  | MatchFreeText string bool
  | MatchLogicGroup "Term list"
  | MatchLogicBoolean BooleanOperator

type_synonym Matcher = "string \<Rightarrow> nat \<Rightarrow> (TermMatch \<times> nat) option"

definition substring :: "string \<Rightarrow> nat \<Rightarrow> nat \<Rightarrow> string" where
  "substring input s e = take (e - s) (drop s input)"

text \<open>
  The line and the column of an offset, both counted from 1; a line ends with the
  newline character.
\<close>

definition position_at :: "string \<Rightarrow> nat \<Rightarrow> Position" where
  "position_at input off =
     (let before = take off input in
      \<lparr>offset = off,
       line = 1 + length (filter (\<lambda>c. c = CHR 0x0A) before),
       column = 1 + length (takeWhile (\<lambda>c. c \<noteq> CHR 0x0A) (rev before))\<rparr>)"

definition location_range :: "string \<Rightarrow> nat \<Rightarrow> nat \<Rightarrow> LocationRange" where
  "location_range input s e = \<lparr>start = position_at input s, finish = position_at input e\<rparr>"

definition match_converter :: "SearchConfig \<Rightarrow> string \<Rightarrow> nat \<Rightarrow> nat \<Rightarrow> TokenConverter" where
  "match_converter cfg input s e =
     \<lparr>tc_text = substring input s e, tc_location = location_range input s e, config = cfg\<rparr>"

fun build_term :: "Imports \<Rightarrow> TokenConverter \<Rightarrow> TermMatch \<Rightarrow> error + Term" where
  "build_term im tc (MatchSpaces v) = Inr (Spaces (tokenSpaces tc v))"
| "build_term im tc (MatchFilter flt k v op neg) =
     (case tokenFilter im tc flt k v op neg of
        Inl e \<Rightarrow> Inl e
      | Inr f \<Rightarrow> Inr (Filter f))"
| "build_term im tc (MatchFreeText v q) = Inr (FreeText (tokenFreeText tc v q))"
| "build_term im tc (MatchLogicGroup inner) = Inr (LogicGroup (tokenLogicGroup tc inner))"
| "build_term im tc (MatchLogicBoolean b) = Inr (LogicBoolean (tokenLogicBoolean tc b))"

function terms_from ::
  "Imports \<Rightarrow> SearchConfig \<Rightarrow> Matcher \<Rightarrow> string \<Rightarrow> nat \<Rightarrow> Term list option" where
  "terms_from im cfg m input pos =
     (if length input \<le> pos then (if pos = length input then Some [] else None)
      else
        (case m input pos of
           None \<Rightarrow> None
         | Some (shape, e) \<Rightarrow>
             if e \<le> pos \<or> length input < e then None
             else
               (case build_term im (match_converter cfg input pos e) shape of
                  Inl _ \<Rightarrow> None
                | Inr x \<Rightarrow> map_option (Cons x) (terms_from im cfg m input e))))"
  by pat_completeness auto
termination
  by (relation "measure (\<lambda>(im, cfg, m, input, pos). length input - pos)") auto

declare terms_from.simps [simp del]

datatype exception = SyntaxError

definition grammar_parse ::
  "Imports \<Rightarrow> SearchConfig \<Rightarrow> Matcher \<Rightarrow> string \<Rightarrow> exception + ParseResult" where
  "grammar_parse im cfg m query =
     (case terms_from im cfg m query 0 of
        None \<Rightarrow> Inl SyntaxError
      | Some ts \<Rightarrow> Inr ts)"

text \<open>
  What the spec says of the terms of a parse result, as a property of the terms \<open>ts\<close>
  matched from the offset \<open>pos\<close> on: each term starts where the one before it ended,
  its text is the substring between its offsets, and the last term ends where the input
  ends.
\<close>

fun term_sequence :: "string \<Rightarrow> nat \<Rightarrow> Term list \<Rightarrow> bool" where
  "term_sequence input pos [] = (pos = length input)"
| "term_sequence input pos (x # xs) =
     (offset (start (term_location x)) = pos
      \<and> pos \<le> offset (finish (term_location x))
      \<and> offset (finish (term_location x)) \<le> length input
      \<and> term_text x = substring input pos (offset (finish (term_location x)))
      \<and> term_sequence input (offset (finish (term_location x))) xs)"

section \<open>The statements of the specification\<close>

text \<open>
  The row of the spec's predicate table for the aggregate duration filter, as it is
  worded: the key is a function, and \<^verbatim>\<open>isDuration\<close> holds of the key name or of any
  argument.
\<close>

definition spec_admits_AggregateDuration :: "Imports \<Rightarrow> TokenConverter \<Rightarrow> Key \<Rightarrow> bool" where
  "spec_admits_AggregateDuration im tc k =
     (keyIsAggregate im (getKeyName im k)
      \<and> (isDuration im tc (getKeyName im k)
         \<or> (case key_args k of
               None \<Rightarrow> False
             | Some as \<Rightarrow> list_ex (\<lambda>arg. isDuration im tc (arg_value arg)) as)))"

text \<open>
  The list rule of the spec, as it is worded: a list item is null or empty. An item is
  null when it has no value token, and empty when its value token holds the empty text.
\<close>

definition spec_null_or_empty :: "ValueText Joined \<Rightarrow> bool" where
  "spec_null_or_empty i =
     (case item i of
        None \<Rightarrow> True
      | Some x \<Rightarrow> value' (payload x) = [])"

text \<open>
  The number rule of the spec, as it is worded: the raw value is the numeric value of
  the digits multiplied by 1000 for the suffix k, by 1000000 for m and by 1000000000 for
  b, and the numeric value itself without a suffix.
\<close>

definition spec_rawValue :: "string \<Rightarrow> string \<Rightarrow> rat option" where
  "spec_rawValue v u =
     (case decimal_literal v of
        None \<Rightarrow> None
      | Some (neg, q) \<Rightarrow>
          Some ((if neg then - q else q)
                * (if u = ''k'' then 1000
                   else if u = ''m'' then 1000000
                   else if u = ''b'' then 1000000000
                   else 1)))"

section \<open>Sample inputs\<close>

text \<open>
  A small catalog and a few tokens, used to run the definitions on concrete inputs.
  \<open>sample_getKeyName\<close> names a simple key by its value, an explicit tag by the value of
  its inner key, and an aggregate key by the value of its name.
\<close>

definition span :: "nat \<Rightarrow> nat \<Rightarrow> LocationRange" where
  "span a b =
     \<lparr>start = \<lparr>offset = a, line = 1, column = a + 1\<rparr>,
      finish = \<lparr>offset = b, line = 1, column = b + 1\<rparr>\<rparr>"

definition sample_config :: SearchConfig where
  "sample_config =
     \<lparr>allowBoolean = True,
      booleanKeys = {''error.handled''},
      dateKeys = {''timestamp''},
      durationKeys = {''transaction.duration'', ''p95'', ''percentile''},
      numericKeys = {''times_seen'', ''count_unique''},
      percentageKeys = {},
      textOperatorKeys = {}\<rparr>"

definition converter :: "string \<Rightarrow> nat \<Rightarrow> nat \<Rightarrow> TokenConverter" where
  "converter s a b = \<lparr>tc_text = s, tc_location = span a b, config = sample_config\<rparr>"

definition sample_fields :: "string \<Rightarrow> FieldDefinition option" where
  "sample_fields k =
     (if k \<in> set [''p95'', ''percentile''] then Some \<lparr>kind = FUNCTION, valueType = None\<rparr>
      else if k = ''count_unique'' then Some \<lparr>kind = FUNCTION, valueType = Some ''number''\<rparr>
      else if k = ''transaction.duration'' then Some \<lparr>kind = FIELD, valueType = Some ''duration''\<rparr>
      else if k = ''timestamp'' then Some \<lparr>kind = FIELD, valueType = Some ''date''\<rparr>
      else if k = ''error.handled'' then Some \<lparr>kind = FIELD, valueType = Some ''boolean''\<rparr>
      else if k = ''times_seen'' then Some \<lparr>kind = FIELD, valueType = Some ''number''\<rparr>
      else if k = ''user'' then Some \<lparr>kind = FIELD, valueType = Some ''string''\<rparr>
      else None)"

definition sample_aggregations :: "string \<Rightarrow> Aggregation option" where
  "sample_aggregations k =
     (if k = ''percentile''
      then Some \<lparr>parameters =
                   [\<lparr>paramKind = column (ColumnTypesArray [''duration'', ''number'']),
                     required = True\<rparr>,
                    \<lparr>paramKind = valueKind ''number'', required = True\<rparr>]\<rparr>
      else None)"

fun sample_getKeyName :: "Key \<Rightarrow> string" where
  "sample_getKeyName (KeySimple x) = value' (payload x)"
| "sample_getKeyName (KeyExplicitTag x) = value' (payload (key (payload x)))"
| "sample_getKeyName (KeyAggregate x) = value' (payload (name (payload x)))"

definition sample_imports :: Imports where
  "sample_imports =
     \<lparr>getFieldDefinition = sample_fields,
      AGGREGATIONS = sample_aggregations,
      isMeasurement = (\<lambda>k. False),
      isSpanOperationBreakdownField = (\<lambda>k. False),
      measurementType = (\<lambda>k. []),
      getKeyName = sample_getKeyName,
      isoNow = ''2022-08-15T10:30:00.000Z''\<rparr>"

text \<open>
  A simple key and a text value, at an offset or at the start of the input, and an
  aggregate key with one argument or with two.
\<close>

definition key_at :: "nat \<Rightarrow> string \<Rightarrow> Key" where
  "key_at a n = KeySimple (tokenKeySimple (converter n a (a + length n)) n False)"

definition simple_key :: "string \<Rightarrow> Key" where
  "simple_key n = key_at 0 n"

definition aggregate_key :: "string \<Rightarrow> string \<Rightarrow> Key" where
  "aggregate_key f a =
     KeyAggregate
       (tokenKeyAggregate (converter (f @ ''('' @ a @ '')'') 0 (length f + length a + 2))
          (tokenKeySimple (converter f 0 (length f)) f False)
          (Some (tokenKeyAggregateArgs (converter a (length f + 1) (length f + 1 + length a))
                   (tokenKeyAggregateParam
                      (converter a (length f + 1) (length f + 1 + length a)) a False)
                   []))
          (tokenSpaces (converter [] (length f + 1) (length f + 1)) [])
          (tokenSpaces (converter [] (length f + 1 + length a) (length f + 1 + length a)) []))"

definition aggregate_key2 :: "string \<Rightarrow> string \<Rightarrow> string \<Rightarrow> Key" where
  "aggregate_key2 f a b =
     KeyAggregate
       (tokenKeyAggregate (converter (f @ ''('' @ a @ '','' @ b @ '')'') 0 0)
          (tokenKeySimple (converter f 0 0) f False)
          (Some (tokenKeyAggregateArgs (converter (a @ '','' @ b) 0 0)
                   (tokenKeyAggregateParam (converter a 0 0) a False)
                   [ListItem (tokenSpaces (converter [] 0 0) []) '','' (tokenSpaces (converter [] 0 0) [])
                      (Some (tokenKeyAggregateParam (converter b 0 0) b False))]))
          (tokenSpaces (converter [] 0 0) [])
          (tokenSpaces (converter [] 0 0) []))"

definition text_at :: "nat \<Rightarrow> string \<Rightarrow> bool \<Rightarrow> ValueText" where
  "text_at a s q = tokenValueText (converter s a (a + length s)) s q"

definition text_value :: "string \<Rightarrow> bool \<Rightarrow> ValueText" where
  "text_value s q = text_at 0 s q"

definition quoted_value :: "string \<Rightarrow> ValueText" where
  "quoted_value s =
     tokenValueText (converter ([CHR 0x22] @ s @ [CHR 0x22]) 0 (length s + 2)) s True"

text \<open>The lists \<^verbatim>\<open>["",a]\<close> and \<^verbatim>\<open>[a,,b]\<close>.\<close>

definition list_with_empty_text :: "ValueText Joined list TokenResult" where
  "list_with_empty_text =
     tokenValueTextList (converter (''['' @ [CHR 0x22, CHR 0x22] @ '',a]'') 0 6)
       (quoted_value [])
       [ListItem (tokenSpaces (converter [] 0 0) []) '','' (tokenSpaces (converter [] 0 0) [])
          (Some (text_value ''a'' False))]"

definition list_with_missing_item :: "ValueText Joined list TokenResult" where
  "list_with_missing_item =
     tokenValueTextList (converter ''[a,,b]'' 0 6)
       (text_value ''a'' False)
       [ListItem (tokenSpaces (converter [] 0 0) []) '','' (tokenSpaces (converter [] 0 0) []) None,
        ListItem (tokenSpaces (converter [] 0 0) []) '','' (tokenSpaces (converter [] 0 0) [])
          (Some (text_value ''b'' False))]"

definition five_seconds :: Value where
  "five_seconds = ValueDuration (tokenValueDuration (converter ''5s'' 0 2) ''5'' ''s'')"

text \<open>
  The filter token of \<^verbatim>\<open>timestamp:>2022-01-01\<close>.
\<close>

definition date_filter :: "FilterFields TokenResult" where
  "date_filter =
     TokenResult ''timestamp:>2022-01-01'' (span 0 21)
       (FilterFields Date (simple_key ''timestamp'')
          (ValueIso8601Date (tokenValueIso8601Date (converter ''2022-01-01'' 11 21) ''2022-01-01''))
          False GreaterThan None)"

text \<open>
  A matcher for a toy grammar: a run of blanks is spaces; a run of other characters is a
  text filter with a simple key when it holds a colon, and free text when it does not; an
  opening parenthesis is not matched. \<open>sample_grammar\<close> is the parser with this
  matcher, and \<open>sample_parse_result\<close> and \<open>sample_invalid_result\<close> are what it
  returns for the queries \<^verbatim>\<open>user:me ok\<close> and \<^verbatim>\<open>user:\<close>.
\<close>

definition sample_matcher :: Matcher where
  "sample_matcher input pos =
     (case drop pos input of
        [] \<Rightarrow> None
      | c # cs \<Rightarrow>
          if c = CHR '' '' then
            (let sp = takeWhile (\<lambda>d. d = CHR '' '') (c # cs) in
             Some (MatchSpaces sp, pos + length sp))
          else if c = CHR ''('' then None
          else
            (let run = takeWhile (\<lambda>d. d \<noteq> CHR '' '') (c # cs);
                 k = takeWhile (\<lambda>d. d \<noteq> CHR '':'') run;
                 v = drop (length k + 1) run
             in if length k < length run
                then Some (MatchFilter Text
                             (KeySimple (tokenKeySimple
                                (match_converter sample_config input pos (pos + length k)) k False))
                             (ValueText (tokenValueText
                                (match_converter sample_config input (pos + length k + 1)
                                   (pos + length run)) v False))
                             None False,
                           pos + length run)
                else Some (MatchFreeText run False, pos + length run)))"

definition sample_grammar :: "string \<Rightarrow> exception + ParseResult" where
  "sample_grammar = grammar_parse sample_imports sample_config sample_matcher"

definition sample_query :: string where
  "sample_query = ''user:me ok''"

definition sample_parse_result :: ParseResult where
  "sample_parse_result =
     [Filter (TokenResult ''user:me'' (span 0 7)
        (FilterFields Text (key_at 0 ''user'') (ValueText (text_at 5 ''me'' False))
           False Default None)),
      Spaces (tokenSpaces (converter '' '' 7 8) '' ''),
      FreeText (tokenFreeText (converter ''ok'' 8 10) ''ok'' False)]"

definition sample_invalid_result :: ParseResult where
  "sample_invalid_result =
     [Filter (TokenResult ''user:'' (span 0 5)
        (FilterFields Text (key_at 0 ''user'') (ValueText (text_at 5 [] False))
           False Default (Some \<lparr>reason = ''Filter must have a value'', expectedType = None\<rparr>)))]"

section \<open>Auxiliary facts\<close>

lemmas sample_eval =
  sample_imports_def sample_fields_def sample_aggregations_def sample_config_def converter_def
  key_at_def simple_key_def aggregate_key_def aggregate_key2_def text_at_def text_value_def
  quoted_value_def span_def
  tokenKeySimple_def tokenKeyAggregate_def tokenKeyAggregateArgs_def tokenKeyAggregateParam_def
  tokenSpaces_def tokenValueText_def tokenKeyExplicitTag_def tokenValueTextList_def
  tokenValueDuration_def tokenValueIso8601Date_def tokenFreeText_def
  list_with_empty_text_def list_with_missing_item_def five_seconds_def date_filter_def
  sample_query_def sample_parse_result_def sample_invalid_result_def

lemmas number_eval =
  Number_def decimal_literal_def unsigned_decimal_def isDigit_def numberUnits_def

subsection \<open>The messages\<close>

lemma t_duration:
  "t ''Invalid duration. Expected number followed by duration unit suffix'' []
   = ''Invalid duration. Expected number followed by duration unit suffix''"
  by simp

lemma t_date:
  "t ''Invalid date format. Expected +/-duration (e.g. +1h) or ISO 8601-like (e.g. %s or %s)'' [a, b]
   = ''Invalid date format. Expected +/-duration (e.g. +1h) or ISO 8601-like (e.g. '' @ a
     @ '' or '' @ b @ '')''"
  by simp

lemma t_boolean:
  "t ''Invalid boolean. Expected true, 1, false, or 0.'' []
   = ''Invalid boolean. Expected true, 1, false, or 0.''"
  by simp

lemma t_numeric:
  "t ''Invalid number. Expected number then optional k, m, or b suffix (e.g. 500k)'' []
   = ''Invalid number. Expected number then optional k, m, or b suffix (e.g. 500k)''"
  by simp

lemma t_list:
  "t ''Lists should not have empty values'' [] = ''Lists should not have empty values''"
  by simp

subsection \<open>Joining\<close>

lemma join_no_separator: "join [] xs = concat xs"
  by (induction "[] :: string" xs rule: join.induct) simp_all

lemma joinQuery_default: "joinQuery (Some ts) False False = concat (map term_text ts)"
proof (cases ts)
  case Nil
  then show ?thesis by (simp add: joinQuery_def)
next
  case (Cons x xs)
  then show ?thesis
    by (cases xs) (simp_all add: joinQuery_def join_no_separator)
qed

lemma term_sequence_concat:
  "term_sequence input pos ts \<Longrightarrow> concat (map term_text ts) = drop pos input"
proof (induction ts arbitrary: pos)
  case Nil
  then show ?case by simp
next
  case (Cons x xs)
  define e where "e = offset (finish (term_location x))"
  from Cons.prems have le: "pos \<le> e" and tx: "term_text x = take (e - pos) (drop pos input)"
    and rest: "term_sequence input e xs"
    by (simp_all add: e_def substring_def)
  have split: "take (e - pos) (drop pos input) @ drop (e - pos) (drop pos input) = drop pos input"
    by (rule append_take_drop_id)
  have "drop (e - pos) (drop pos input) = drop e input"
    using le by (simp del: drop_drop add: drop_drop [of "e - pos" pos input])
  with split have "take (e - pos) (drop pos input) @ drop e input = drop pos input"
    by (simp del: drop_drop)
  with Cons.IH [OF rest] tx show ?case
    by (simp del: drop_drop)
qed

subsection \<open>The terms of a parse\<close>

lemma build_term_text:
  "build_term im tc shape = Inr x \<Longrightarrow>
   term_text x = tc_text tc \<and> term_location x = tc_location tc"
  by (cases shape)
    (auto simp add: tokenSpaces_def tokenFilter_def tokenFreeText_def tokenLogicGroup_def
      tokenLogicBoolean_def split: sum.splits)

lemma position_at_offset: "offset (position_at input n) = n"
  by (simp add: position_at_def Let_def)

lemma terms_from_sequence:
  "terms_from im cfg m input pos = Some ts \<Longrightarrow> term_sequence input pos ts"
proof (induction im cfg m input pos arbitrary: ts rule: terms_from.induct)
  case (1 im cfg m input pos)
  show ?case
  proof (cases "length input \<le> pos")
    case True
    with "1.prems" show ?thesis
      by (simp add: terms_from.simps [of im cfg m input pos] split: if_splits)
  next
    case False
    with "1.prems" obtain shape e x rest where
      m: "m input pos = Some (shape, e)" and range: "pos < e" "e \<le> length input"
      and x: "build_term im (match_converter cfg input pos e) shape = Inr x"
      and rest: "terms_from im cfg m input e = Some rest" and ts: "ts = x # rest"
      by (auto simp add: terms_from.simps [of im cfg m input pos]
          split: option.splits if_splits sum.splits)
    have "\<not> (e \<le> pos \<or> length input < e)"
      using range by simp
    then have "term_sequence input e rest"
      using "1.IH" [OF False m refl _ x rest] by simp
    moreover have "term_text x = substring input pos e"
      and "offset (start (term_location x)) = pos" and "offset (finish (term_location x)) = e"
      using build_term_text [OF x]
      by (simp_all add: match_converter_def location_range_def position_at_offset)
    ultimately show ?thesis
      using range ts by simp
  qed
qed

subsection \<open>Sets of operators\<close>

lemma validOps_distinct: "distinct (validOps (filterTypeConfig f))"
  by (cases f) (simp_all add: allOperators_def basicOperators_def)

lemma set_add_distinct: "distinct (seen @ xs) \<Longrightarrow> set_add seen xs = seen @ xs"
  by (induction xs arbitrary: seen) auto

lemma new_Set_distinct: "distinct xs \<Longrightarrow> new_Set xs = xs"
  using set_add_distinct [of "[]" xs] by (simp add: new_Set_def)

lemma getValidOps_valid:
  "invalid (payload tok) = None \<Longrightarrow>
   getValidOps tok =
     new_Set (concat (map (\<lambda>type. validOps (filterTypeConfig type))
       (new_Set (filter' (payload tok)
                 # (case interchangeableFilterOperators (filter' (payload tok)) of
                      None \<Rightarrow> [] | Some ts \<Rightarrow> ts)))))"
  by (simp add: getValidOps_def)

lemma getValidOps_Date:
  "invalid (payload tok) = None \<Longrightarrow> filter' (payload tok) = Date \<Longrightarrow>
   getValidOps tok = allOperators"
  by (simp add: getValidOps_valid new_Set_def allOperators_def)

lemma getValidOps_SpecificDate:
  "invalid (payload tok) = None \<Longrightarrow> filter' (payload tok) = SpecificDate \<Longrightarrow>
   getValidOps tok = allOperators"
  by (simp add: getValidOps_valid new_Set_def allOperators_def)

lemma getValidOps_other:
  assumes "invalid (payload tok) = None"
    and "filter' (payload tok) \<noteq> Date" and "filter' (payload tok) \<noteq> SpecificDate"
  shows "getValidOps tok = validOps (filterTypeConfig (filter' (payload tok)))"
proof -
  have "interchangeableFilterOperators (filter' (payload tok)) = None"
    using assms(2,3) by (cases "filter' (payload tok)") simp_all
  then have "getValidOps tok = new_Set (validOps (filterTypeConfig (filter' (payload tok))))"
    using assms(1) by (simp add: getValidOps_valid new_Set_def)
  then show ?thesis
    by (simp add: new_Set_distinct validOps_distinct)
qed

subsection \<open>The dispatch of the validator\<close>

lemma checkInvalidFilter_Text:
  "checkInvalidFilter im tc Text k (ValueText v) = Inr (checkInvalidTextFilter im tc k v)"
  by (simp add: checkInvalidFilter_def)

lemma checkInvalidFilter_aggregate:
  "flt \<in> {AggregateDate, AggregateDuration, AggregateNumeric, AggregatePercentage,
           AggregateRelativeDate} \<Longrightarrow>
   checkInvalidFilter im tc flt (KeyAggregate a) v
   = Inr (checkInvalidAggregateFilter im tc flt a v)"
  by (auto simp add: checkInvalidFilter_def)

subsection \<open>Doubles\<close>

lemma bit_length_pos: "0 < n \<Longrightarrow> 1 \<le> bit_length n"
proof (induction n rule: bit_length.induct)
  case (1 n)
  have "0 \<le> bit_length (n div 2)"
  proof (cases "n div 2 \<le> 0")
    case True
    then show ?thesis by (simp add: bit_length.simps [of "n div 2"])
  next
    case False
    then show ?thesis using "1.IH" "1.prems" by simp
  qed
  then show ?case using "1.prems" by (simp add: bit_length.simps [of n])
qed

lemma bit_length_bounds:
  "0 < n \<Longrightarrow> 2 ^ nat (bit_length n - 1) \<le> n \<and> n < 2 ^ nat (bit_length n)"
proof (induction n rule: bit_length.induct)
  case (1 n)
  show ?case
  proof (cases "n = 1")
    case True
    then show ?thesis
      by (simp add: bit_length.simps [of 1] bit_length.simps [of 0])
  next
    case False
    with "1.prems" have h: "0 < n div 2" by linarith
    then have IH: "2 ^ nat (bit_length (n div 2) - 1) \<le> n div 2"
      "n div 2 < 2 ^ nat (bit_length (n div 2))"
      using "1.IH" "1.prems" by simp_all
    have bl: "bit_length n = 1 + bit_length (n div 2)"
      using "1.prems" by (simp add: bit_length.simps [of n])
    have p: "1 \<le> bit_length (n div 2)" using h by (rule bit_length_pos)
    have e1: "nat (bit_length n - 1) = Suc (nat (bit_length (n div 2) - 1))"
      using bl p by simp
    have e2: "nat (bit_length n) = Suc (nat (bit_length (n div 2)))"
      using bl p by simp
    have "2 * 2 ^ nat (bit_length (n div 2) - 1) \<le> 2 * (n div 2)" using IH(1) by simp
    also have "\<dots> \<le> n" by simp
    finally have lo: "2 ^ nat (bit_length n - 1) \<le> n" by (simp add: e1)
    have "n div 2 + 1 \<le> 2 ^ nat (bit_length (n div 2))" using IH(2) by simp
    then have "2 * (n div 2) + 2 \<le> 2 * 2 ^ nat (bit_length (n div 2))" by simp
    moreover have "n < 2 * (n div 2) + 2" by linarith
    ultimately have hi: "n < 2 ^ nat (bit_length n)" by (simp add: e2)
    from lo hi show ?thesis by simp
  qed
qed


lemma floor_log2_bounds:
  assumes "0 < q"
  shows "2 powi floor_log2 q \<le> q \<and> q < 2 powi (floor_log2 q + 1)"
proof (cases "1 \<le> q")
  case True
  define n where "n = \<lfloor>q\<rfloor>"
  have n: "0 < n" using True by (simp add: n_def)
  have fl: "floor_log2 q = bit_length n - 1"
    using True by (simp add: floor_log2_def n_def)
  have bl: "1 \<le> bit_length n" using n by (rule bit_length_pos)
  from bit_length_bounds [OF n]
  have lo: "2 ^ nat (bit_length n - 1) \<le> n" and hi: "n + 1 \<le> 2 ^ nat (bit_length n)"
    by simp_all
  have "(2::rat) powi (bit_length n - 1) = of_int (2 ^ nat (bit_length n - 1))"
    using bl by (simp add: power_int_def)
  also have "\<dots> \<le> of_int n" using lo by (simp only: of_int_le_iff)
  also have "\<dots> \<le> q" by (simp add: n_def)
  finally have 1: "2 powi floor_log2 q \<le> q" by (simp add: fl)
  have "q < of_int (n + 1)" using floor_correct [of q] by (simp add: n_def)
  also have "\<dots> \<le> of_int (2 ^ nat (bit_length n))" using hi by (simp only: of_int_le_iff)
  also have "\<dots> = (2::rat) powi (bit_length n)"
    using bl by (simp add: power_int_def)
  finally have 2: "q < 2 powi (floor_log2 q + 1)" by (simp add: fl)
  from 1 2 show ?thesis by simp
next
  case False
  define r where "r = 1 / q"
  define n where "n = \<lfloor>r\<rfloor>"
  define k where "k = 1 - bit_length n"
  have r: "1 < r" using False assms by (simp add: r_def)
  have q: "q = 1 / r" by (simp add: r_def)
  have n: "0 < n" using r by (simp add: n_def)
  have bl: "1 \<le> bit_length n" using n by (rule bit_length_pos)
  from bit_length_bounds [OF n]
  have lo: "2 ^ nat (bit_length n - 1) \<le> n" and hi: "n + 1 \<le> 2 ^ nat (bit_length n)"
    by simp_all
  have "(2::rat) powi (bit_length n - 1) = of_int (2 ^ nat (bit_length n - 1))"
    using bl by (simp add: power_int_def)
  also have "\<dots> \<le> of_int n" using lo by (simp only: of_int_le_iff)
  also have "\<dots> \<le> r" by (simp add: n_def)
  finally have rlo: "2 powi (bit_length n - 1) \<le> r" .
  have "r < of_int (n + 1)" using floor_correct [of r] by (simp add: n_def)
  also have "\<dots> \<le> of_int (2 ^ nat (bit_length n))" using hi by (simp only: of_int_le_iff)
  also have "\<dots> = (2::rat) powi (bit_length n)"
    using bl by (simp add: power_int_def)
  finally have rhi: "r < 2 powi (bit_length n)" .
  have pk: "(2::rat) powi k = 1 / 2 powi (bit_length n - 1)"
    using power_int_minus_divide [of "2::rat" "bit_length n - 1"] by (simp add: k_def)
  have pk1: "(2::rat) powi (k - 1) = 1 / 2 powi (bit_length n)"
    using power_int_minus_divide [of "2::rat" "bit_length n"] by (simp add: k_def)
  have qhi: "q \<le> 2 powi k"
    unfolding pk q using rlo r by (simp add: frac_le)
  have qlo: "2 powi (k - 1) < q"
    unfolding pk1 q using rhi r by (simp add: frac_less2)
  have fl: "floor_log2 q = (if 2 powi k \<le> q then k else k - 1)"
    using False by (simp add: floor_log2_def Let_def k_def n_def r_def)
  show ?thesis
  proof (cases "2 powi k \<le> q")
    case True
    have "(2::rat) powi k < 2 powi (k + 1)"
      by (rule power_int_strict_increasing) simp_all
    with True qhi fl show ?thesis by simp
  next
    case False
    with qlo fl show ?thesis by simp
  qed
qed

lemma floor_log2_unique:
  assumes "0 < q" and "2 powi k \<le> q" and "q < 2 powi (k + 1)"
  shows "floor_log2 q = k"
proof -
  from floor_log2_bounds [OF assms(1)]
  have lo: "2 powi floor_log2 q \<le> q" and hi: "q < 2 powi (floor_log2 q + 1)"
    by simp_all
  have "(2::rat) powi k < 2 powi (floor_log2 q + 1)"
    using assms(2) hi by simp
  then have "k < floor_log2 q + 1"
    by (metis not_le power_int_increasing one_le_numeral)
  moreover have "(2::rat) powi floor_log2 q < 2 powi (k + 1)"
    using lo assms(3) by simp
  then have "floor_log2 q < k + 1"
    by (metis not_le power_int_increasing one_le_numeral)
  ultimately show ?thesis by simp
qed

lemma round_half_even_of_int: "round_half_even (of_int z) = z"
  by (simp add: round_half_even_def)


lemma round_half_even_bounds: "\<lfloor>x\<rfloor> \<le> round_half_even x \<and> round_half_even x \<le> \<lfloor>x\<rfloor> + 1"
  by (simp add: round_half_even_def Let_def)

lemma round_magnitude_fixed:
  fixes n j :: int
  assumes n: "0 < n" "n \<le> 2 ^ 53" and j: "- 1074 \<le> j"
  shows "round_magnitude (of_int n * 2 powi j) = of_int n * 2 powi j"
proof -
  define q :: rat where "q = of_int n * 2 powi j"
  define k where "k = floor_log2 q"
  define e where "e = max (k - 52) (- 1074)"
  have q: "0 < q" using n by (simp add: q_def)
  from floor_log2_bounds [OF q] have lo: "2 powi k \<le> q"
    by (simp add: k_def)
  have "\<exists>z. q / 2 powi e = of_int z"
  proof (cases "e \<le> j")
    case True
    have "q / 2 powi e = of_int n * 2 powi (j - e)"
      by (simp add: q_def power_int_diff)
    also have "\<dots> = of_int (n * 2 ^ nat (j - e))"
      using True by (simp add: power_int_def)
    finally show ?thesis by blast
  next
    case False
    with j have e: "e = k - 52" by (simp add: e_def max_def split: if_splits)
    have "q \<le> 2 ^ 53 * 2 powi j"
    proof -
      have "(of_int n :: rat) \<le> of_int (2 ^ 53)" using n(2) by (simp only: of_int_le_iff)
      then show ?thesis by (simp add: q_def)
    qed
    also have "\<dots> = 2 powi (53 + j)"
      by (simp add: power_int_add)
    finally have "(2::rat) powi k \<le> 2 powi (53 + j)" using lo by simp
    then have "k \<le> 53 + j"
      by (metis not_le power_int_strict_increasing one_less_numeral_iff semiring_norm(76))
    with False e have ej: "e = j + 1" and kj: "k = j + 53" by simp_all
    have "(2::rat) powi (j + 53) = 2 powi j * 2 ^ 53"
      by (simp add: power_int_add)
    with lo kj have "2 powi j * 2 ^ 53 \<le> of_int n * (2::rat) powi j" by (simp add: q_def)
    then have "(2::rat) ^ 53 \<le> of_int n" by simp
    then have "(of_int (2 ^ 53) :: rat) \<le> of_int n" by simp
    then have "2 ^ 53 \<le> n" by (simp only: of_int_le_iff)
    with n(2) have n53: "n = 2 ^ 53" by simp
    have "q / 2 powi e = 2 ^ 53 * 2 powi (j - e)"
      by (simp add: q_def n53 power_int_diff)
    also have "\<dots> = of_int (2 ^ 52)"
      by (simp add: ej)
    finally show ?thesis by blast
  qed
  then obtain z where z: "q / 2 powi e = of_int z" ..
  have "round_magnitude q = of_int (round_half_even (q / 2 powi e)) * 2 powi e"
    by (simp add: round_magnitude_def Let_def e_def k_def)
  also have "\<dots> = q / 2 powi e * 2 powi e"
    by (simp add: z round_half_even_of_int)
  also have "\<dots> = q" by simp
  finally show ?thesis by (simp add: q_def)
qed

lemma round_magnitude_form:
  assumes "0 < q"
  shows "\<exists>n j. round_magnitude q = of_int n * 2 powi j \<and> 0 \<le> n \<and> n \<le> 2 ^ 53 \<and> - 1074 \<le> j"
proof -
  define k where "k = floor_log2 q"
  define e where "e = max (k - 52) (- 1074)"
  define x where "x = q / 2 powi e"
  define n where "n = round_half_even x"
  have rm: "round_magnitude q = of_int n * 2 powi e"
    by (simp add: round_magnitude_def Let_def e_def k_def n_def x_def)
  from floor_log2_bounds [OF assms] have hi: "q < 2 powi (k + 1)"
    by (simp add: k_def)
  have x0: "0 < x" using assms by (simp add: x_def)
  have "(2::rat) powi (k + 1) \<le> 2 powi (e + 53)"
    by (rule power_int_increasing) (simp_all add: e_def)
  with hi have "q < 2 powi (e + 53)" by simp
  also have "\<dots> = 2 powi e * 2 ^ 53" by (simp add: power_int_add)
  finally have "x < 2 ^ 53"
    by (simp add: x_def divide_less_eq mult.commute)
  then have "x < of_int 9007199254740992" by simp
  then have fl1: "\<lfloor>x\<rfloor> < 9007199254740992" by (simp only: floor_less_iff)
  have fl0: "0 \<le> \<lfloor>x\<rfloor>" using x0 by simp
  have "0 \<le> n \<and> n \<le> 9007199254740992"
    unfolding n_def using round_half_even_bounds [of x] fl0 fl1 by linarith
  then have "0 \<le> n" "n \<le> 2 ^ 53" by simp_all
  moreover have "- 1074 \<le> e" by (simp add: e_def)
  ultimately show ?thesis using rm by blast
qed

lemma round_magnitude_idem:
  assumes "0 < q" and "0 < round_magnitude q"
  shows "round_magnitude (round_magnitude q) = round_magnitude q"
proof -
  from round_magnitude_form [OF assms(1)] obtain n j where
    rm: "round_magnitude q = of_int n * 2 powi j" and n: "0 \<le> n" "n \<le> 2 ^ 53"
    and j: "- 1074 \<le> j"
    by blast
  have "n \<noteq> 0" using assms(2) rm by auto
  with n have "0 < n" by simp
  from round_magnitude_fixed [OF this n(2) j] show ?thesis by (simp add: rm)
qed

lemma round_magnitude_nonneg: "0 < q \<Longrightarrow> 0 \<le> round_magnitude q"
  using round_magnitude_form [of q] by auto

lemma multiply_one:
  assumes "0 \<le> q"
  shows "multiply (nearest_double neg q) (Finite 1) = nearest_double neg q"
proof (cases "q = 0")
  case True
  then show ?thesis
    by (simp add: nearest_double_def signed_zero_def multiply_def)
next
  case False
  with assms have q: "0 < q" by simp
  define r where "r = round_magnitude q"
  have r0: "0 \<le> r" using q by (simp add: r_def round_magnitude_nonneg)
  show ?thesis
  proof (cases "2 powi 1024 \<le> r")
    case True
    then show ?thesis using False
      by (simp add: nearest_double_def Let_def r_def signed_infinity_def multiply_def)
  next
    case big: False
    show ?thesis
    proof (cases "r = 0")
      case True
      then show ?thesis using False big
        by (simp add: nearest_double_def Let_def r_def signed_zero_def multiply_def)
    next
      case nz: False
      with r0 have rpos: "0 < r" by simp
      have idem: "round_magnitude r = r"
        using round_magnitude_idem [OF q] rpos by (simp add: r_def)
      have nd: "nearest_double b q = Finite (if b then - r else r)" for b
        using False big nz by (simp add: nearest_double_def Let_def r_def)
      have "nearest_double b r = Finite (if b then - r else r)" for b
        using big nz idem by (simp add: nearest_double_def Let_def)
      then show ?thesis using rpos
        by (cases neg) (simp_all add: nd multiply_def Let_def)
    qed
  qed
qed

lemma floor_numeral_fraction:
  "\<lfloor>numeral a / numeral b :: rat\<rfloor> = numeral a div numeral b"
  by (metis floor_divide_of_int_eq of_int_numeral)

lemma round_magnitude_at:
  assumes "0 < q" and "2 powi k \<le> q" and "q < 2 powi (k + 1)"
  shows "round_magnitude q
         = of_int (round_half_even (q / 2 powi max (k - 52) (- 1074))) * 2 powi max (k - 52) (- 1074)"
  using floor_log2_unique [OF assms] by (simp add: round_magnitude_def Let_def)

lemma nearest_double_exact:
  fixes n j :: int
  assumes "0 < n" and "n \<le> 2 ^ 53" and "- 1074 \<le> j" and "of_int n * 2 powi j < (2::rat) powi 1024"
  shows "nearest_double neg (of_int n * 2 powi j)
         = Finite (if neg then - (of_int n * 2 powi j) else of_int n * 2 powi j)"
proof -
  have "round_magnitude (of_int n * 2 powi j) = of_int n * 2 powi j"
    using assms(1-3) by (rule round_magnitude_fixed)
  moreover have "(0::rat) < of_int n * 2 powi j"
    using assms(1) by simp
  ultimately show ?thesis
    using assms(1,4) by (simp add: nearest_double_def Let_def)
qed

lemma nearest_double_int:
  assumes "0 < n" and "n \<le> 2 ^ 53"
  shows "nearest_double neg (of_int n) = Finite (if neg then - of_int n else of_int n)"
proof -
  have "(of_int n :: rat) \<le> of_int (2 ^ 53)"
    using assms(2) by (simp only: of_int_le_iff)
  then have "(of_int n :: rat) < 2 powi 1024"
    by simp
  then show ?thesis
    using nearest_double_exact [OF assms, of 0 neg] by simp
qed

lemma multiply_Number_one: "multiply (Number v) (Finite 1) = Number v"
proof (cases "decimal_literal v")
  case None
  then show ?thesis by (simp add: Number_def multiply_def)
next
  case (Some p)
  obtain neg q where p: "p = (neg, q)" by (cases p)
  have "0 \<le> q"
  proof -
    have u: "unsigned_decimal s = Some x \<Longrightarrow> 0 \<le> x" for s x
      by (auto simp add: unsigned_decimal_def Let_def split: if_splits)
    from Some p show ?thesis
      by (auto simp add: decimal_literal_def split: list.splits if_splits dest: u)
  qed
  then show ?thesis
    using Some p by (simp add: Number_def multiply_one)
qed

subsection \<open>Value parameters\<close>

lemma validateAggregateParameter_value:
  assumes "pv \<noteq> []"
  shows "validateAggregateParameter im keyName (Some \<lparr>paramKind = valueKind dt, required = r\<rparr>)
           (Some pv) pos n
         = (if getValueType pv \<noteq> dt
            then Some \<lparr>reason = keyName @ '' expects arument '' @ show_nat pos
                                 @ '' to be of type '' @ dt,
                       expectedType = None\<rparr>
            else None)"
  using assms by (simp add: validateAggregateParameter_def)

lemma getValueType_cases:
  "getValueType pv = (if parseFloat_isNaN pv then ''string'' else ''number'')"
  by (simp add: getValueType_def FieldValueType_NUMBER_def FieldValueType_STRING_def)

text \<open>A no-break space (U+00A0) or a byte order mark (U+FEFF) before a digit is skipped.\<close>

lemma getValueType_white_space:
  "getValueType [CHR 0xC2, CHR 0xA0, CHR ''5''] = ''number''"
  "getValueType [CHR 0xEF, CHR 0xBB, CHR 0xBF, CHR 0x20, CHR ''-'', CHR ''.'', CHR ''5''] = ''number''"
  "getValueType [CHR 0xC2, CHR ''5''] = ''string''"
  by (simp_all add: getValueType_cases parseFloat_isNaN_def whiteSpace_def isDigit_def)

section \<open>The claims\<close>

text \<open>
  C1. For every query \<open>q\<close> that parses (\<^verbatim>\<open>parseSearch(q)\<close> is not null), joining the
  result with the default flags gives \<open>q\<close> back, with no leading space and no space
  added between the terms. The parser is the one the spec describes, for any matcher of
  single terms.
\<close>

theorem joinQuery_parseSearch_roundtrip:
  assumes "parseSearch (grammar_parse im cfg m) q = Inr (Some ast)"
  shows "joinQuery (Some ast) False False = q"
proof -
  from assms have "grammar_parse im cfg m q = Inr ast"
    by (simp add: parseSearch_def split: sum.splits)
  then have "terms_from im cfg m q 0 = Some ast"
    by (simp add: grammar_parse_def split: option.splits)
  then have "term_sequence q 0 ast"
    by (rule terms_from_sequence)
  then have "concat (map term_text ast) = drop 0 q"
    by (rule term_sequence_concat)
  then show ?thesis
    by (simp add: joinQuery_default)
qed

theorem joinQuery_parseSearch_roundtrip_witness:
  "parseSearch sample_grammar sample_query = Inr (Some sample_parse_result)
   \<and> joinQuery (Some sample_parse_result) False False = ''user:me ok''"
proof -
  have h: "parseSearch (grammar_parse sample_imports sample_config sample_matcher) sample_query
           = Inr (Some sample_parse_result)"
    by code_simp
  show ?thesis
    using h joinQuery_parseSearch_roundtrip [OF h]
    by (simp add: sample_grammar_def sample_query_def)
qed

text \<open>
  C2, as amended. For every key that is a function, the grammar predicate admits the
  aggregate duration filter exactly when \<^verbatim>\<open>isDuration\<close> holds of the key name and, where
  the key has an argument list, also of at least one argument. The claim as worded (of
  the key name or of any argument) fails: \<^verbatim>\<open>p95(user)\<close> has a duration name and no
  duration argument, \<^verbatim>\<open>count_unique(transaction.duration)\<close> has a duration argument and
  no duration name, and the predicate rejects both.
\<close>

theorem predicateFilter_AggregateDuration_counterexample:
  "spec_admits_AggregateDuration sample_imports (converter [] 0 0) (aggregate_key ''p95'' ''user'')
   \<and> \<not> predicateFilter sample_imports (converter [] 0 0) AggregateDuration
         (aggregate_key ''p95'' ''user'')
   \<and> spec_admits_AggregateDuration sample_imports (converter [] 0 0)
         (aggregate_key ''count_unique'' ''transaction.duration'')
   \<and> \<not> predicateFilter sample_imports (converter [] 0 0) AggregateDuration
         (aggregate_key ''count_unique'' ''transaction.duration'')"
  by (simp add: spec_admits_AggregateDuration_def predicateFilter_def checkAggregate_def
      keyIsAggregate_def isDuration_def arg_value_def sample_eval)

theorem predicateFilter_AggregateDuration:
  assumes "keyIsAggregate im (getKeyName im k)"
  shows "predicateFilter im tc AggregateDuration k =
           (isDuration im tc (getKeyName im k)
            \<and> (case key_args k of
                  None \<Rightarrow> True
                | Some as \<Rightarrow> \<exists>arg \<in> set as. isDuration im tc (arg_value arg)))"
  using assms
  by (simp add: predicateFilter_def checkAggregate_def list_ex_iff split: option.splits)

theorem predicateFilter_AggregateDuration_witness:
  "keyIsAggregate sample_imports
     (getKeyName sample_imports (aggregate_key ''p95'' ''transaction.duration''))
   \<and> predicateFilter sample_imports (converter [] 0 0) AggregateDuration
       (aggregate_key ''p95'' ''transaction.duration'')"
proof -
  have h: "keyIsAggregate sample_imports
     (getKeyName sample_imports (aggregate_key ''p95'' ''transaction.duration''))"
    by (simp add: keyIsAggregate_def sample_eval)
  show ?thesis
    using h predicateFilter_AggregateDuration [OF h, of "converter [] 0 0"]
    by (simp add: isDuration_def arg_value_def sample_eval)
qed

text \<open>
  C3. \<^verbatim>\<open>parseSearch\<close> never throws: whatever the generated parser does on a query,
  \<^verbatim>\<open>parseSearch\<close> returns. It returns null when the parser throws, and the parse result
  as it is when the parser returns one, whether or not filters in it carry an invalid
  annotation.
\<close>

theorem parseSearch_never_throws:
  "(\<exists>r. parseSearch g q = Inr r)
   \<and> (\<forall>e. g q = Inl e \<longrightarrow> parseSearch g q = Inr None)
   \<and> (\<forall>ast. g q = Inr ast \<longrightarrow> parseSearch g q = Inr (Some ast))"
  by (cases "g q") (simp_all add: parseSearch_def)

theorem parseSearch_never_throws_witness:
  "sample_grammar ''(a'' = Inl SyntaxError
   \<and> parseSearch sample_grammar ''(a'' = Inr None
   \<and> sample_grammar ''user:'' = Inr sample_invalid_result
   \<and> list_ex (\<lambda>x. case x of Filter f \<Rightarrow> invalid (payload f) \<noteq> None | _ \<Rightarrow> False)
        sample_invalid_result
   \<and> parseSearch sample_grammar ''user:'' = Inr (Some sample_invalid_result)"
proof -
  have h1: "sample_grammar ''(a'' = Inl SyntaxError"
    by code_simp
  have h2: "sample_grammar ''user:'' = Inr sample_invalid_result"
    by code_simp
  have h3: "list_ex (\<lambda>x. case x of Filter f \<Rightarrow> invalid (payload f) \<noteq> None | _ \<Rightarrow> False)
        sample_invalid_result"
    by (simp add: sample_invalid_result_def)
  show ?thesis
    using h1 h2 h3 parseSearch_never_throws [of sample_grammar "''(a''"]
      parseSearch_never_throws [of sample_grammar "''user:''"]
    by simp
qed

text \<open>
  C4. A filter that lands as the text fallback, with a simple key that is not a
  function: when the key is a duration key, the verdict is the reason
  ``Invalid duration. Expected number followed by duration unit suffix'' with the
  expected type duration. The checks run in the order duration, date, boolean, numeric,
  and the first that holds of the key gives the verdict: a date key gets the date reason
  (which quotes the current date) with the expected types date, specific date and
  relative date, a boolean key the boolean reason with the expected type boolean, a
  numeric key the number reason with the expected types numeric and numeric list. A
  filter with an explicit tag key gets the check of the text value only.
\<close>

theorem text_filter_hints:
  assumes "\<not> keyIsAggregate im (getKeyName im (KeySimple x))"
  shows "(isDuration im tc (getKeyName im (KeySimple x)) \<longrightarrow>
            checkInvalidFilter im tc Text (KeySimple x) (ValueText v)
            = Inr (Some \<lparr>reason = ''Invalid duration. Expected number followed by duration unit suffix'',
                         expectedType = Some [Duration]\<rparr>))
       \<and> (\<not> isDuration im tc (getKeyName im (KeySimple x))
          \<and> isDate tc (getKeyName im (KeySimple x)) \<longrightarrow>
            checkInvalidFilter im tc Text (KeySimple x) (ValueText v)
            = Inr (Some \<lparr>reason = ''Invalid date format. Expected +/-duration (e.g. +1h) or ISO 8601-like (e.g. ''
                                   @ take 10 (isoNow im) @ '' or '' @ isoNow im @ '')'',
                         expectedType = Some [Date, SpecificDate, RelativeDate]\<rparr>))
       \<and> (\<not> isDuration im tc (getKeyName im (KeySimple x))
          \<and> \<not> isDate tc (getKeyName im (KeySimple x))
          \<and> isBoolean tc (getKeyName im (KeySimple x)) \<longrightarrow>
            checkInvalidFilter im tc Text (KeySimple x) (ValueText v)
            = Inr (Some \<lparr>reason = ''Invalid boolean. Expected true, 1, false, or 0.'',
                         expectedType = Some [Boolean]\<rparr>))
       \<and> (\<not> isDuration im tc (getKeyName im (KeySimple x))
          \<and> \<not> isDate tc (getKeyName im (KeySimple x))
          \<and> \<not> isBoolean tc (getKeyName im (KeySimple x))
          \<and> isNumeric im tc (getKeyName im (KeySimple x)) \<longrightarrow>
            checkInvalidFilter im tc Text (KeySimple x) (ValueText v)
            = Inr (Some \<lparr>reason = ''Invalid number. Expected number then optional k, m, or b suffix (e.g. 500k)'',
                         expectedType = Some [Numeric, NumericIn]\<rparr>))
       \<and> checkInvalidFilter im tc Text (KeyExplicitTag y) (ValueText v)
         = Inr (checkInvalidTextValue v)"
proof -
  have tag: "checkInvalidTextFilter im tc (KeyExplicitTag y) v = checkInvalidTextValue v"
    by (simp add: checkInvalidTextFilter_def)
  have simple: "checkInvalidTextFilter im tc (KeySimple x) v =
      (if isDuration im tc (getKeyName im (KeySimple x))
       then Some \<lparr>reason = ''Invalid duration. Expected number followed by duration unit suffix'',
                  expectedType = Some [Duration]\<rparr>
       else if isDate tc (getKeyName im (KeySimple x))
       then Some \<lparr>reason = ''Invalid date format. Expected +/-duration (e.g. +1h) or ISO 8601-like (e.g. ''
                                   @ take 10 (isoNow im) @ '' or '' @ isoNow im @ '')'',
                  expectedType = Some [Date, SpecificDate, RelativeDate]\<rparr>
       else if isBoolean tc (getKeyName im (KeySimple x))
       then Some \<lparr>reason = ''Invalid boolean. Expected true, 1, false, or 0.'',
                  expectedType = Some [Boolean]\<rparr>
       else if isNumeric im tc (getKeyName im (KeySimple x))
       then Some \<lparr>reason = ''Invalid number. Expected number then optional k, m, or b suffix (e.g. 500k)'',
                  expectedType = Some [Numeric, NumericIn]\<rparr>
       else checkInvalidTextValue v)"
    using assms
    unfolding checkInvalidTextFilter_def Let_def t_duration t_date t_boolean t_numeric
    by simp
  show ?thesis
    unfolding checkInvalidFilter_Text tag simple by simp
qed

theorem text_filter_hints_witness:
  "checkInvalidFilter sample_imports (converter [] 0 0) Text (simple_key ''transaction.duration'')
     (ValueText (quoted_value ''hello''))
   = Inr (Some \<lparr>reason = ''Invalid duration. Expected number followed by duration unit suffix'',
                expectedType = Some [Duration]\<rparr>)
   \<and> checkInvalidFilter sample_imports (converter [] 0 0) Text (simple_key ''timestamp'')
       (ValueText (quoted_value ''hello''))
     = Inr (Some \<lparr>reason = ''Invalid date format. Expected +/-duration (e.g. +1h) or ISO 8601-like (e.g. 2022-08-15 or 2022-08-15T10:30:00.000Z)'',
                  expectedType = Some [Date, SpecificDate, RelativeDate]\<rparr>)
   \<and> checkInvalidFilter sample_imports (converter [] 0 0) Text (simple_key ''error.handled'')
       (ValueText (quoted_value ''hello''))
     = Inr (Some \<lparr>reason = ''Invalid boolean. Expected true, 1, false, or 0.'',
                  expectedType = Some [Boolean]\<rparr>)
   \<and> checkInvalidFilter sample_imports (converter [] 0 0) Text (simple_key ''times_seen'')
       (ValueText (quoted_value ''hello''))
     = Inr (Some \<lparr>reason = ''Invalid number. Expected number then optional k, m, or b suffix (e.g. 500k)'',
                  expectedType = Some [Numeric, NumericIn]\<rparr>)"
proof -
  let ?x = "\<lambda>n. tokenKeySimple (converter n 0 (length n)) n False"
  have key: "simple_key n = KeySimple (?x n)" for n
    by (simp add: simple_key_def key_at_def)
  have name: "getKeyName sample_imports (KeySimple (?x n)) = n" for n
    by (simp add: sample_imports_def tokenKeySimple_def)
  have 1: "\<not> keyIsAggregate sample_imports
               (getKeyName sample_imports (KeySimple (?x ''transaction.duration'')))"
    and 2: "\<not> keyIsAggregate sample_imports (getKeyName sample_imports (KeySimple (?x ''timestamp'')))"
    and 3: "\<not> keyIsAggregate sample_imports
               (getKeyName sample_imports (KeySimple (?x ''error.handled'')))"
    and 4: "\<not> keyIsAggregate sample_imports (getKeyName sample_imports (KeySimple (?x ''times_seen'')))"
    unfolding name by (simp_all add: keyIsAggregate_def sample_imports_def sample_fields_def)
  have sets: "isDuration sample_imports (converter [] 0 0) ''transaction.duration''"
    "\<not> isDuration sample_imports (converter [] 0 0) ''timestamp''"
    "isDate (converter [] 0 0) ''timestamp''"
    "\<not> isDuration sample_imports (converter [] 0 0) ''error.handled''"
    "\<not> isDate (converter [] 0 0) ''error.handled''"
    "isBoolean (converter [] 0 0) ''error.handled''"
    "\<not> isDuration sample_imports (converter [] 0 0) ''times_seen''"
    "\<not> isDate (converter [] 0 0) ''times_seen''"
    "\<not> isBoolean (converter [] 0 0) ''times_seen''"
    "isNumeric sample_imports (converter [] 0 0) ''times_seen''"
    by (simp_all add: isDuration_def isDate_def isBoolean_def isNumeric_def sample_imports_def
        sample_config_def converter_def)
  have iso: "isoNow sample_imports = ''2022-08-15T10:30:00.000Z''"
    by (simp add: sample_imports_def)
  show ?thesis
    unfolding key
    using text_filter_hints [OF 1, of "converter [] 0 0" "quoted_value ''hello''", unfolded name]
      text_filter_hints [OF 2, of "converter [] 0 0" "quoted_value ''hello''", unfolded name]
      text_filter_hints [OF 3, of "converter [] 0 0" "quoted_value ''hello''", unfolded name]
      text_filter_hints [OF 4, of "converter [] 0 0" "quoted_value ''hello''", unfolded name]
      sets
    by (simp add: iso)
qed


text \<open>
  C5. A parameter of kind value: the type inferred from the argument (number when
  \<^verbatim>\<open>parseFloat\<close> reads a number, string otherwise) is compared with the data type of
  the parameter definition, as \<open>validateAggregateParameter_value\<close> shows. On the filter \<^verbatim>\<open>percentile(transaction.duration,abc):5s\<close>
  the second argument is not a number; the verdict carries the reason
  ``percentile expects arument 2 to be of type number'', whose wording is not the
  ``expects argument'' that the column and the dropdown branch print.
\<close>

theorem value_parameter_reason_wording:
  "checkInvalidFilter sample_imports (converter [] 0 0) AggregateDuration
     (aggregate_key2 ''percentile'' ''transaction.duration'' ''abc'') five_seconds
   = Inr (Some \<lparr>reason = ''percentile expects arument 2 to be of type number'',
                expectedType = None\<rparr>)
   \<and> ''percentile expects arument 2 to be of type number''
     \<noteq> ''percentile expects argument 2 to be of type number''"
  by (simp add: checkInvalidFilter_def checkInvalidAggregateFilter_def
      checkInvalidAggregateFilterValue_def validateAggregateParameter_def
      validateAggregateParameterColumn_def getValueType_def parseFloat_isNaN_def
      whiteSpace_def isDigit_def isDuration_def elementAt_def show_nat.simps
      FieldValueType_NUMBER_def FieldValueType_STRING_def upt_rec sample_eval)

text \<open>
  C6, as amended. For every text list or numeric list filter, the verdict is the reason
  ``Lists should not have empty values'' exactly when an item of the list is null, that
  is, when no value stands between two commas; otherwise the list check passes. An item
  that is there and holds the empty text does not count: the list \<^verbatim>\<open>["",a]\<close> passes,
  so the claim as worded (null or empty) fails.
\<close>

theorem in_filter_empty_text_counterexample:
  "list_ex spec_null_or_empty (payload list_with_empty_text)
   \<and> checkInvalidFilter sample_imports (converter [] 0 0) TextIn (simple_key ''user'')
       (ValueTextList list_with_empty_text) = Inr None"
  by (simp add: spec_null_or_empty_def checkInvalidFilter_def checkInvalidInFilter_def sample_eval)

theorem in_filter_missing_items:
  assumes "flt \<in> {TextIn, NumericIn}"
  shows "checkInvalidFilter im tc flt k (ValueTextList l)
           = Inr (if \<exists>i \<in> set (payload l). item i = None
                  then Some \<lparr>reason = ''Lists should not have empty values'', expectedType = None\<rparr>
                  else None)
       \<and> checkInvalidFilter im tc flt k (ValueNumberList n)
           = Inr (if \<exists>i \<in> set (payload n). item i = None
                  then Some \<lparr>reason = ''Lists should not have empty values'', expectedType = None\<rparr>
                  else None)"
proof -
  have "flt \<noteq> Text" "flt \<noteq> Is" "flt \<noteq> Has" "flt \<in> set [TextIn, NumericIn]"
    using assms by auto
  then show ?thesis
    unfolding checkInvalidFilter_def checkInvalidInFilter_def Let_def t_list
    by (simp add: list_ex_iff)
qed

theorem in_filter_missing_items_witness:
  "TextIn \<in> {TextIn, NumericIn}
   \<and> (\<exists>i \<in> set (payload list_with_missing_item). item i = None)
   \<and> checkInvalidFilter sample_imports (converter [] 0 0) TextIn (simple_key ''user'')
       (ValueTextList list_with_missing_item)
     = Inr (Some \<lparr>reason = ''Lists should not have empty values'', expectedType = None\<rparr>)"
proof -
  have h: "TextIn \<in> {TextIn, NumericIn}"
    by simp
  have missing: "\<exists>i \<in> set (payload list_with_missing_item). item i = None"
    by (simp add: list_with_missing_item_def tokenValueTextList_def)
  show ?thesis
    using h missing
      in_filter_missing_items [OF h, of sample_imports "converter [] 0 0" "simple_key ''user''"
        list_with_missing_item]
    by simp
qed

text \<open>
  C7. The boolean stored by a boolean value token is true exactly when the raw token in
  lower case is 1 or true: 1, true and TRUE give true; 0, false and FALSE give false.
\<close>

theorem tokenValueBoolean_true_iff:
  "payload (tokenValueBoolean tc v) = (toLowerCase v = ''1'' \<or> toLowerCase v = ''true'')
   \<and> payload (tokenValueBoolean tc ''1'') \<and> payload (tokenValueBoolean tc ''true'')
   \<and> payload (tokenValueBoolean tc ''TRUE'')
   \<and> \<not> payload (tokenValueBoolean tc ''0'') \<and> \<not> payload (tokenValueBoolean tc ''false'')
   \<and> \<not> payload (tokenValueBoolean tc ''FALSE'')"
  by (simp add: tokenValueBoolean_def toLowerCase_def lower_char_def)

theorem tokenValueBoolean_true_iff_witness:
  "payload (tokenValueBoolean (converter ''True'' 0 4) ''True'')
   \<and> \<not> payload (tokenValueBoolean (converter ''no'' 0 2) ''no'')"
  using tokenValueBoolean_true_iff [of "converter ''True'' 0 4" "''True''"]
    tokenValueBoolean_true_iff [of "converter ''no'' 0 2" "''no''"]
  by (simp add: toLowerCase_def lower_char_def)

text \<open>
  C8, as amended. The raw value of a number value token is \<^verbatim>\<open>Number(value)\<close>, the
  double nearest to the numeric value of the digits, multiplied in double arithmetic by
  1000 for the suffix k, by 1000000 for m and by 1000000000 for b, the product rounded to
  the nearest double; without a suffix it is \<^verbatim>\<open>Number(value)\<close> unchanged. 1k gives
  1000, 2.5m gives 2500000 and 3b gives 3000000000. The claim as worded, with the exact
  product of the numeric value, fails: for 4.1m the exact product is 4100000, and the raw
  value is the double next below it, 4099999.9999999995 (that is, 4100000 less 2 to the
  -31).
\<close>

theorem tokenValueNumber_rawValue_counterexample:
  "spec_rawValue ''4.1'' ''m'' = Some 4100000
   \<and> rawValue (payload (tokenValueNumber (converter ''4.1m'' 0 4) ''4.1'' ''m''))
     = Finite (4100000 - 1 / 2 ^ 31)
   \<and> Finite (4100000 - 1 / 2 ^ 31) \<noteq> Finite 4100000"
proof -
  have spec: "spec_rawValue ''4.1'' ''m'' = Some 4100000"
    by (simp add: spec_rawValue_def decimal_literal_def unsigned_decimal_def isDigit_def)
  have "round_magnitude (41 / 10) = 2308094809027379 / 562949953421312"
    by (subst round_magnitude_at [where k = 2])
      (simp_all add: round_half_even_def Let_def floor_numeral_fraction)
  then have n: "Number ''4.1'' = Finite (2308094809027379 / 562949953421312)"
    by (simp add: number_eval nearest_double_def)
  have "round_magnitude (2308094809027379 / 562949953421312 * 1000000)
        = 8804682956799999 / 2147483648"
    by (subst round_magnitude_at [where k = 21])
      (simp_all add: round_half_even_def Let_def floor_numeral_fraction)
  then have "multiply (Finite (2308094809027379 / 562949953421312)) (Finite 1000000)
             = Finite (8804682956799999 / 2147483648)"
    by (simp add: multiply_def nearest_double_def)
  then have raw: "rawValue (payload (tokenValueNumber (converter ''4.1m'' 0 4) ''4.1'' ''m''))
                  = Finite (4100000 - 1 / 2 ^ 31)"
    by (simp add: tokenValueNumber_def numberUnits_def n)
  from spec raw show ?thesis by simp
qed

theorem tokenValueNumber_rawValue:
  "rawValue (payload (tokenValueNumber tc v ''k'')) = multiply (Number v) (Finite 1000)
   \<and> rawValue (payload (tokenValueNumber tc v ''m'')) = multiply (Number v) (Finite 1000000)
   \<and> rawValue (payload (tokenValueNumber tc v ''b'')) = multiply (Number v) (Finite 1000000000)
   \<and> rawValue (payload (tokenValueNumber tc v [])) = Number v
   \<and> rawValue (payload (tokenValueNumber tc ''1'' ''k'')) = Finite 1000
   \<and> rawValue (payload (tokenValueNumber tc ''2.5'' ''m'')) = Finite 2500000
   \<and> rawValue (payload (tokenValueNumber tc ''3'' ''b'')) = Finite 3000000000"
proof -
  have int: "nearest_double False (numeral w) = Finite (numeral w)"
    if "(numeral w :: int) \<le> 2 ^ 53" for w
    using nearest_double_int [of "numeral w" False] that by simp
  have n1: "Number ''1'' = Finite 1"
    using nearest_double_int [of 1 False] by (simp add: number_eval)
  have n3: "Number ''3'' = Finite 3"
    using int [of "num.Bit1 num.One"] by (simp add: number_eval)
  have n25: "Number ''2.5'' = Finite (5 / 2)"
    using nearest_double_exact [of 5 "- 1" False] by (simp add: number_eval)
  have 1: "multiply (Finite 1) (Finite 1000) = Finite 1000"
    by (simp add: multiply_def int)
  have 2: "multiply (Finite (5 / 2)) (Finite 1000000) = Finite 2500000"
    by (simp add: multiply_def int)
  have 3: "multiply (Finite 3) (Finite 1000000000) = Finite 3000000000"
    by (simp add: multiply_def int)
  show ?thesis
    by (simp add: tokenValueNumber_def numberUnits_def multiply_Number_one n1 n3 n25 1 2 3)
qed

theorem tokenValueNumber_rawValue_witness:
  "rawValue (payload (tokenValueNumber (converter ''-0.75k'' 0 6) ''-0.75'' ''k'')) = Finite (- 750)
   \<and> rawValue (payload (tokenValueNumber (converter ''42'' 0 2) ''42'' [])) = Finite 42"
proof -
  have n42: "Number ''42'' = Finite 42"
    using nearest_double_int [of 42 False] by (simp add: number_eval)
  have n75: "Number ''-0.75'' = Finite (- (3 / 4))"
    using nearest_double_exact [of 3 "- 2" True] by (simp add: number_eval)
  have m: "multiply (Finite (- (3 / 4))) (Finite 1000) = Finite (- 750)"
    using nearest_double_int [of 750 True] by (simp add: multiply_def)
  show ?thesis
    using tokenValueNumber_rawValue [of "converter ''-0.75k'' 0 6" "''-0.75''"]
      tokenValueNumber_rawValue [of "converter ''42'' 0 2" "''42''"]
    by (simp add: n42 n75 m)
qed

text \<open>
  C9. For a filter token that is valid, of type date or specific date, the operators of
  \<^verbatim>\<open>getValidOps\<close> are the valid operators of date together with those of specific date.
  For a valid token of any other filter type they are the valid operators of that type
  alone: no other types are merged.
\<close>

theorem getValidOps_interchangeable:
  assumes "invalid (payload tok) = None"
  shows "(filter' (payload tok) \<in> {Date, SpecificDate} \<longrightarrow>
            set (getValidOps tok)
            = set (validOps (filterTypeConfig Date)) \<union> set (validOps (filterTypeConfig SpecificDate)))
       \<and> (filter' (payload tok) \<notin> {Date, SpecificDate} \<longrightarrow>
            getValidOps tok = validOps (filterTypeConfig (filter' (payload tok))))"
proof (intro conjI impI)
  assume "filter' (payload tok) \<in> {Date, SpecificDate}"
  then have "getValidOps tok = allOperators"
    using assms getValidOps_Date getValidOps_SpecificDate by blast
  then show "set (getValidOps tok)
            = set (validOps (filterTypeConfig Date)) \<union> set (validOps (filterTypeConfig SpecificDate))"
    by simp
next
  assume "filter' (payload tok) \<notin> {Date, SpecificDate}"
  then show "getValidOps tok = validOps (filterTypeConfig (filter' (payload tok)))"
    using assms getValidOps_other by simp
qed

theorem getValidOps_interchangeable_witness:
  "invalid (payload date_filter) = None
   \<and> filter' (payload date_filter) \<in> {Date, SpecificDate}
   \<and> set (getValidOps date_filter)
     = {Default, GreaterThanEqual, LessThanEqual, GreaterThan, LessThan, Equal, NotEqual}"
proof -
  have h: "invalid (payload date_filter) = None"
    by (simp add: date_filter_def)
  have d: "filter' (payload date_filter) \<in> {Date, SpecificDate}"
    by (simp add: date_filter_def)
  show ?thesis
    using h d getValidOps_interchangeable [OF h] by (simp add: allOperators_def)
qed

text \<open>
  C10. An aggregate filter whose value agrees with the type of the function, and whose
  function name is not a key of the aggregations table: whatever its arguments are, no
  argument is counted or checked, and the invalid verdict of the filter is null.
\<close>

theorem unknown_aggregate_passes:
  assumes "flt \<in> {AggregateDate, AggregateDuration, AggregateNumeric, AggregatePercentage,
                   AggregateRelativeDate}"
    and "checkInvalidAggregateFilterValue im tc flt a v = None"
    and "AGGREGATIONS im (text' (name (payload a))) = None"
  shows "checkInvalidAggregateFilter im tc flt a v = None
         \<and> checkInvalidFilter im tc flt (KeyAggregate a) v = Inr None
         \<and> tokenFilter im tc flt (KeyAggregate a) v op neg
           = Inr (TokenResult (tc_text tc) (tc_location tc)
                    (FilterFields flt (KeyAggregate a) v neg
                       (case op of None \<Rightarrow> Default | Some x \<Rightarrow> x) None))"
proof -
  have 1: "checkInvalidAggregateFilter im tc flt a v = None"
    using assms(2,3) by (simp add: checkInvalidAggregateFilter_def)
  have 2: "checkInvalidFilter im tc flt (KeyAggregate a) v = Inr None"
    using checkInvalidFilter_aggregate [OF assms(1)] 1 by simp
  show ?thesis
    using 1 2 by (simp add: tokenFilter_def)
qed

theorem unknown_aggregate_passes_witness:
  "invalid (payload (projr (tokenFilter sample_imports (converter ''p95(user):5s'' 0 12)
      AggregateDuration (aggregate_key ''p95'' ''user'') five_seconds None False))) = None"
proof -
  let ?a = "tokenKeyAggregate (converter ''p95(user)'' 0 9)
          (tokenKeySimple (converter ''p95'' 0 3) ''p95'' False)
          (Some (tokenKeyAggregateArgs (converter ''user'' 4 8)
                   (tokenKeyAggregateParam (converter ''user'' 4 8) ''user'' False) []))
          (tokenSpaces (converter [] 4 4) [])
          (tokenSpaces (converter [] 8 8) [])"
  have key: "aggregate_key ''p95'' ''user'' = KeyAggregate ?a"
    by (simp add: aggregate_key_def eval_nat_numeral)
  have h1: "AggregateDuration \<in> {AggregateDate, AggregateDuration, AggregateNumeric,
      AggregatePercentage, AggregateRelativeDate}"
    by simp
  have h2: "checkInvalidAggregateFilterValue sample_imports (converter ''p95(user):5s'' 0 12)
      AggregateDuration ?a five_seconds = None"
    by (simp add: checkInvalidAggregateFilterValue_def isDuration_def sample_eval)
  have h3: "AGGREGATIONS sample_imports (text' (name (payload ?a))) = None"
    by (simp add: sample_eval)
  show ?thesis
    unfolding key
    using unknown_aggregate_passes [OF h1 h2 h3, of None False] by simp
qed

end
